theory Spec2Isabelle
  imports Main "HOL-Library.AList" "HOL-Library.Multiset"
begin

section \<open>Strings and the ambient environment\<close>

text \<open>
  The embedding follows \<^verbatim>\<open>packages/core/src/core/deepseekContentGenerator.ts\<close>.
  A JavaScript string is modelled as a \<^typ>\<open>string\<close>, one \<^typ>\<open>char\<close> per code unit below
  \<open>0x100\<close>. \<^verbatim>\<open>process.env\<close> is a partial map from variable names to strings; a variable
  that is not set reads as \<open>None\<close> (JavaScript \<^verbatim>\<open>undefined\<close>).
\<close>

type_synonym env = "string \<Rightarrow> string option"

definition truthy :: "string option \<Rightarrow> bool" where
  \<comment> \<open>JavaScript truthiness of a \<^verbatim>\<open>string | undefined | null\<close>: set and not empty.\<close>
  "truthy v = (case v of None \<Rightarrow> False | Some s \<Rightarrow> s \<noteq> [])"

definition or_else :: "string option \<Rightarrow> string \<Rightarrow> string" where
  \<comment> \<open>\<^verbatim>\<open>v || d\<close> on strings.\<close>
  "or_else v d = (if truthy v then the v else d)"

definition toLowerCase_char :: "char \<Rightarrow> char" where
  \<comment> \<open>\<^verbatim>\<open>toLowerCase\<close> on one code unit below \<open>0x100\<close>: A-Z and the Latin-1 capitals.\<close>
  "toLowerCase_char c =
     (let n = (of_char c :: nat)
      in if (65 \<le> n \<and> n \<le> 90) \<or> (192 \<le> n \<and> n \<le> 222 \<and> n \<noteq> 215)
         then char_of (n + 32) else c)"

definition toLowerCase :: "string \<Rightarrow> string" where
  "toLowerCase s = map toLowerCase_char s"

fun startsWith :: "string \<Rightarrow> string \<Rightarrow> bool" where
  "startsWith s [] = True"
| "startsWith [] (p # ps) = False"
| "startsWith (c # cs) (p # ps) = (c = p \<and> startsWith cs ps)"

section \<open>Provider resolver\<close>

definition getProviderFromEnv :: "env \<Rightarrow> string" where
  "getProviderFromEnv e = toLowerCase (or_else (e ''GEMINI_CLI_PROVIDER'') '''')"

definition getDeepSeekBaseUrl :: "env \<Rightarrow> string" where
  "getDeepSeekBaseUrl e =
     (if getProviderFromEnv e = ''openai_compatible''
      then or_else (e ''OPENAI_COMPAT_BASE_URL'') ''https://api.openai.com/v1''
      else or_else (e ''DEEPSEEK_BASE_URL'') ''https://api.deepseek.com'')"

datatype error =
    MissingCredential string
  | ProviderNotEnabled

definition getDeepSeekApiKey :: "env \<Rightarrow> error + string" where
  "getDeepSeekApiKey e =
     (let provider = getProviderFromEnv e;
          key = (if provider = ''openai_compatible''
                 then e ''OPENAI_COMPAT_API_KEY'' else e ''DEEPSEEK_API_KEY'')
      in if \<not> truthy key
         then Inl (MissingCredential
                (if provider = ''openai_compatible''
                 then ''OpenAI-compatible API key is required when GEMINI_CLI_PROVIDER=openai_compatible.''
                 else ''DeepSeek API key is required when GEMINI_CLI_PROVIDER=deepseek.''))
         else Inr (the key))"

definition isDeepSeekEnabled :: "env \<Rightarrow> bool" where
  "isDeepSeekEnabled e =
     (let provider = getProviderFromEnv e
      in if provider = ''deepseek'' then True
         else if provider = ''openai_compatible'' then True
         else if provider \<noteq> [] then False
         else truthy (e ''DEEPSEEK_API_KEY'') \<and> \<not> truthy (e ''GEMINI_API_KEY''))"

definition resolveDeepSeekModel :: "env \<Rightarrow> string option \<Rightarrow> string" where
  "resolveDeepSeekModel e requestModel =
     (let provider = getProviderFromEnv e;
          envModel = (if provider = ''openai_compatible''
                      then e ''OPENAI_COMPAT_MODEL'' else e ''DEEPSEEK_MODEL'')
      in if truthy envModel then the envModel
         else if truthy requestModel \<and> startsWith (the requestModel) ''deepseek-''
           then the requestModel
         else if provider = ''openai_compatible'' then ''gpt-4o-mini''
         else ''deepseek-chat'')"

text \<open>
  \<^verbatim>\<open>Number(raw)\<close> is the host's string-to-double conversion. It is a parameter of the
  model: it returns \<open>Finite x\<close> for a finite double and \<open>NotFinite\<close> for NaN and the
  infinities, which is all \<^verbatim>\<open>Number.isFinite\<close> looks at.
\<close>

datatype 'n jsnumber = Finite 'n | NotFinite

definition resolveOpenAICompatTemperature ::
  "(string \<Rightarrow> 'n jsnumber) \<Rightarrow> env \<Rightarrow> 'n option" where
  "resolveOpenAICompatTemperature Number e =
     (if getProviderFromEnv e \<noteq> ''openai_compatible'' then None
      else let raw = e ''OPENAI_COMPAT_TEMPERATURE''
           in if \<not> truthy raw then None
              else (case Number (the raw) of NotFinite \<Rightarrow> None | Finite x \<Rightarrow> Some x))"

section \<open>Generic request, parts and foreign messages\<close>

text \<open>
  A JSON value as the host's \<^verbatim>\<open>JSON.parse\<close> returns it; numbers are kept as integers,
  no claim looks inside one.
\<close>

datatype json =
    JNull
  | JBool bool
  | JNum int
  | JStr string
  | JArr "json list"
  | JObj "(string \<times> json) list"

record FunctionCall =
  fc_id :: "string option"
  fc_name :: string
  fc_args :: json

record FunctionResponse =
  fr_id :: "string option"
  fr_name :: "string option"
  fr_response :: "(string \<times> json) list option"

text \<open>
  A \<^verbatim>\<open>Part\<close>: \<open>part_text\<close> is \<open>Some t\<close> exactly when the part has a \<^verbatim>\<open>text\<close> key
  holding a string.
\<close>

record Part =
  part_text :: "string option"
  functionCall :: "FunctionCall option"
  functionResponse :: "FunctionResponse option"

record Content =
  c_role :: "string option"
  c_parts :: "Part list option"

text \<open>
  \<^verbatim>\<open>request.contents\<close> is one item or an array of items. \<open>IsContent c\<close> is an object that
  passes the local \<^verbatim>\<open>isContent\<close> test (it has both a \<^verbatim>\<open>role\<close> and a \<^verbatim>\<open>parts\<close> key);
  \<open>NotContent\<close> is any other item (a bare string or part), which the test rejects.
\<close>

datatype content_item = IsContent Content | NotContent

datatype contents_union = ContentArray "content_item list" | ContentSingle content_item

text \<open>
  The shapes \<^verbatim>\<open>config.systemInstruction\<close> can take, named after the test of
  \<^verbatim>\<open>normalizeSystemInstruction\<close> each one reaches: absent (\<^verbatim>\<open>undefined\<close> or \<^verbatim>\<open>null\<close>),
  a string, an object with a \<^verbatim>\<open>parts\<close> member, a single part, an array of parts, and
  any other value.
\<close>

datatype system_instruction =
    SIAbsent
  | SIString string
  | SIContent Content
  | SIPart Part
  | SIParts "Part list"
  | SIOther

record FunctionDeclaration =
  fd_name :: "string option"
  fd_description :: "string option"
  fd_parameters :: "json option"

record Tool =
  functionDeclarations :: "FunctionDeclaration list option"

record GenerateContentConfig =
  cfg_systemInstruction :: system_instruction
  cfg_tools :: "Tool list option"

record GenerateContentParameters =
  req_model :: "string option"
  req_contents :: contents_union
  req_config :: "GenerateContentConfig option"

record DeepSeekTool =
  tool_name :: string
  tool_description :: "string option"
  tool_parameters :: json

record DeepSeekToolCall =
  tc_id :: string
  tc_name :: string
  tc_arguments :: string

datatype DeepSeekMessage =
    System string
  | User string
  | Assistant string
  | AssistantToolCalls string "DeepSeekToolCall list"
  | ToolMsg (tool_content: string) (tool_call_id: string)

section \<open>Request translator\<close>

text \<open>
  Three host functions are parameters of the translator: \<open>sp\<close> is \<^verbatim>\<open>JSON.stringify\<close> on a
  part, \<open>js\<close> is \<^verbatim>\<open>JSON.stringify\<close> on a response payload, and \<open>rnd k\<close> is the text
  \<^verbatim>\<open>Math.random().toString(16).slice(2)\<close> of the \<open>k\<close>-th draw made during the call. The
  number of draws made so far is threaded through the translation.
\<close>

definition partToText :: "(Part \<Rightarrow> string) \<Rightarrow> Part \<Rightarrow> string" where
  "partToText sp part = (case part_text part of Some t \<Rightarrow> t | None \<Rightarrow> sp part)"

definition contentPartsToText :: "(Part \<Rightarrow> string) \<Rightarrow> Part list option \<Rightarrow> string" where
  "contentPartsToText sp ps =
     (case ps of None \<Rightarrow> []
      | Some l \<Rightarrow> if l = [] then [] else concat (map (partToText sp) l))"

definition normalizeSystemInstruction ::
  "(Part \<Rightarrow> string) \<Rightarrow> system_instruction \<Rightarrow> string option" where
  "normalizeSystemInstruction sp systemInstruction =
     (case systemInstruction of
        SIAbsent \<Rightarrow> None
      | SIString s \<Rightarrow> if s = [] then None else Some s
      | SIContent si \<Rightarrow>
          (case c_parts si of Some ps \<Rightarrow> Some (contentPartsToText sp (Some ps)) | None \<Rightarrow> None)
      | SIPart maybePart \<Rightarrow>
          (if part_text maybePart \<noteq> None then Some (partToText sp maybePart) else None)
      | SIParts ps \<Rightarrow> Some (contentPartsToText sp (Some ps))
      | SIOther \<Rightarrow> None)"

definition defaultParameters :: json where
  "defaultParameters = JObj [(''type'', JStr ''object''), (''properties'', JObj [])]"

definition convertFunctionDeclarationsToDeepSeekTools ::
  "FunctionDeclaration list option \<Rightarrow> DeepSeekTool list option" where
  "convertFunctionDeclarationsToDeepSeekTools fds =
     (case fds of None \<Rightarrow> None
      | Some l \<Rightarrow>
          if l = [] then None
          else let tools =
                 map (\<lambda>fn. \<lparr>tool_name = the (fd_name fn),
                            tool_description = fd_description fn,
                            tool_parameters =
                              (case fd_parameters fn of Some p \<Rightarrow> p
                               | None \<Rightarrow> defaultParameters)\<rparr>)
                   (filter (\<lambda>fn. truthy (fd_name fn)) l)
               in if tools \<noteq> [] then Some tools else None)"

definition normalizedContents :: "contents_union \<Rightarrow> Content list" where
  \<comment> \<open>An array is filtered with \<^verbatim>\<open>isContent\<close>; a single item is kept if it passes the test.\<close>
  "normalizedContents rawContents =
     (case rawContents of
        ContentArray xs \<Rightarrow> concat (map (\<lambda>v. case v of IsContent c \<Rightarrow> [c] | NotContent \<Rightarrow> []) xs)
      | ContentSingle (IsContent c) \<Rightarrow> [c]
      | ContentSingle NotContent \<Rightarrow> [])"

definition toolMessage ::
  "((string \<times> json) list \<Rightarrow> string) \<Rightarrow> (nat \<Rightarrow> string) \<Rightarrow> nat \<Rightarrow> FunctionResponse
   \<Rightarrow> DeepSeekMessage \<times> nat" where
  "toolMessage js rnd k fr =
     (let (toolCallId, k') =
            (case fr_id fr of
               Some i \<Rightarrow> (i, k)
             | None \<Rightarrow>
                 ((case fr_name fr of Some n \<Rightarrow> n | None \<Rightarrow> ''tool'') @ ''_'' @ rnd k, Suc k));
          payload = (case fr_response fr of Some p \<Rightarrow> p | None \<Rightarrow> []);
          output = (case map_of payload ''output'' of
                      Some (JStr s) \<Rightarrow> s
                    | _ \<Rightarrow> js payload)
      in (ToolMsg output toolCallId, k'))"

fun toolMessages ::
  "((string \<times> json) list \<Rightarrow> string) \<Rightarrow> (nat \<Rightarrow> string) \<Rightarrow> nat \<Rightarrow> FunctionResponse list
   \<Rightarrow> DeepSeekMessage list \<times> nat" where
  "toolMessages js rnd k [] = ([], k)"
| "toolMessages js rnd k (fr # frs) =
     (let (m, k') = toolMessage js rnd k fr;
          (ms, k'') = toolMessages js rnd k' frs
      in (m # ms, k''))"

definition functionResponsesOf :: "Part list option \<Rightarrow> FunctionResponse list" where
  \<comment> \<open>\<^verbatim>\<open>(parts ?? []).filter((p) => !!p.functionResponse)\<close>, each entry read with \<^verbatim>\<open>!\<close>.\<close>
  "functionResponsesOf ps =
     List.map_filter functionResponse (case ps of None \<Rightarrow> [] | Some l \<Rightarrow> l)"

definition translateContent ::
  "(Part \<Rightarrow> string) \<Rightarrow> ((string \<times> json) list \<Rightarrow> string) \<Rightarrow> (nat \<Rightarrow> string) \<Rightarrow> nat
   \<Rightarrow> Content \<Rightarrow> DeepSeekMessage list \<times> nat" where
  \<comment> \<open>One iteration of the loop over \<^verbatim>\<open>normalizedContents\<close>: the messages it pushes.\<close>
  "translateContent sp js rnd k content =
     (let role = c_role content; parts = c_parts content
      in if role = Some ''user'' then
           (let functionResponses = functionResponsesOf parts
            in if length functionResponses > 0 then toolMessages js rnd k functionResponses
               else ([User (contentPartsToText sp parts)], k))
         else if role = Some ''model'' then
           (let text = contentPartsToText sp parts
            in if text \<noteq> [] then ([Assistant text], k) else ([], k))
         else ([User (contentPartsToText sp parts)], k))"

fun translateContents ::
  "(Part \<Rightarrow> string) \<Rightarrow> ((string \<times> json) list \<Rightarrow> string) \<Rightarrow> (nat \<Rightarrow> string) \<Rightarrow> nat
   \<Rightarrow> Content list \<Rightarrow> DeepSeekMessage list \<times> nat" where
  "translateContents sp js rnd k [] = ([], k)"
| "translateContents sp js rnd k (c # cs) =
     (let (ms, k') = translateContent sp js rnd k c;
          (rest, k'') = translateContents sp js rnd k' cs
      in (ms @ rest, k''))"

definition geminiRequestToDeepSeekMessages ::
  "(Part \<Rightarrow> string) \<Rightarrow> ((string \<times> json) list \<Rightarrow> string) \<Rightarrow> (nat \<Rightarrow> string)
   \<Rightarrow> GenerateContentParameters \<Rightarrow> DeepSeekMessage list \<times> DeepSeekTool list option" where
  "geminiRequestToDeepSeekMessages sp js rnd request =
     (let systemInstructionText =
            normalizeSystemInstruction sp
              (case req_config request of None \<Rightarrow> SIAbsent
               | Some c \<Rightarrow> cfg_systemInstruction c);
          functionDeclarations =
            (case req_config request of None \<Rightarrow> None
             | Some c \<Rightarrow>
                 (case cfg_tools c of None \<Rightarrow> None
                  | Some [] \<Rightarrow> None
                  | Some (t # _) \<Rightarrow> functionDeclarations t));
          tools = convertFunctionDeclarationsToDeepSeekTools functionDeclarations;
          messages = (if truthy systemInstructionText then [System (the systemInstructionText)]
                      else [])
      in (messages @ fst (translateContents sp js rnd 0 (normalizedContents (req_contents request))),
          tools))"

section \<open>Facade: the outbound request\<close>

definition joinUrl :: "string \<Rightarrow> string \<Rightarrow> string" where
  "joinUrl base path =
     rev (dropWhile (\<lambda>c. c = CHR ''/'') (rev base)) @ ''/'' @ dropWhile (\<lambda>c. c = CHR ''/'') path"

record 'n RequestBody =
  body_model :: string
  body_messages :: "DeepSeekMessage list"
  body_tools :: "DeepSeekTool list option"
  body_tool_choice :: "string option"
  body_temperature :: "'n option"
  body_stream :: "bool option"
  body_user :: string

record 'n OutboundRequest =
  out_endpoint :: string
  out_authorization :: string
  out_body :: "'n RequestBody"

text \<open>
  \<^verbatim>\<open>generateContent\<close> and \<^verbatim>\<open>generateContentStream\<close> up to their \<^verbatim>\<open>fetch\<close> call: the
  error thrown before any request is made, or the request that is sent. A key the body
  spreads in only under a condition is \<open>None\<close> when it is left out.
\<close>

definition generateContent_request ::
  "(string \<Rightarrow> 'n jsnumber) \<Rightarrow> (Part \<Rightarrow> string) \<Rightarrow> ((string \<times> json) list \<Rightarrow> string)
   \<Rightarrow> (nat \<Rightarrow> string) \<Rightarrow> env \<Rightarrow> GenerateContentParameters \<Rightarrow> string
   \<Rightarrow> error + 'n OutboundRequest" where
  "generateContent_request Number sp js rnd e request userPromptId =
     (if \<not> isDeepSeekEnabled e then Inl ProviderNotEnabled
      else case getDeepSeekApiKey e of
        Inl err \<Rightarrow> Inl err
      | Inr apiKey \<Rightarrow>
          (let baseUrl = getDeepSeekBaseUrl e;
               endpoint = joinUrl baseUrl ''chat/completions'';
               (messages, tools) = geminiRequestToDeepSeekMessages sp js rnd request;
               temperature = resolveOpenAICompatTemperature Number e
           in Inr \<lparr>out_endpoint = endpoint,
                   out_authorization = ''Bearer '' @ apiKey,
                   out_body =
                     \<lparr>body_model = resolveDeepSeekModel e (req_model request),
                      body_messages = messages,
                      body_tools = tools,
                      body_tool_choice = (if tools \<noteq> None then Some ''auto'' else None),
                      body_temperature = temperature,
                      body_stream = None,
                      body_user = userPromptId\<rparr>\<rparr>))"

definition generateContentStream_request ::
  "(string \<Rightarrow> 'n jsnumber) \<Rightarrow> (Part \<Rightarrow> string) \<Rightarrow> ((string \<times> json) list \<Rightarrow> string)
   \<Rightarrow> (nat \<Rightarrow> string) \<Rightarrow> env \<Rightarrow> GenerateContentParameters \<Rightarrow> string
   \<Rightarrow> error + 'n OutboundRequest" where
  "generateContentStream_request Number sp js rnd e request userPromptId =
     (if \<not> isDeepSeekEnabled e then Inl ProviderNotEnabled
      else case getDeepSeekApiKey e of
        Inl err \<Rightarrow> Inl err
      | Inr apiKey \<Rightarrow>
          (let baseUrl = getDeepSeekBaseUrl e;
               endpoint = joinUrl baseUrl ''chat/completions'';
               (messages, tools) = geminiRequestToDeepSeekMessages sp js rnd request
           in Inr \<lparr>out_endpoint = endpoint,
                   out_authorization = ''Bearer '' @ apiKey,
                   out_body =
                     \<lparr>body_model = resolveDeepSeekModel e (req_model request),
                      body_messages = messages,
                      body_tools = tools,
                      body_tool_choice = (if tools \<noteq> None then Some ''auto'' else None),
                      body_temperature = None,
                      body_stream = Some True,
                      body_user = userPromptId\<rparr>\<rparr>))"

section \<open>Streaming reconstruction engine\<close>

text \<open>
  A parsed stream frame, after the cast to \<^verbatim>\<open>DeepSeekChatCompletionStreamChunk\<close>. An
  optional or nullable member is \<open>None\<close> when it is missing or \<^verbatim>\<open>null\<close>; the members the
  generator never reads are left out.
\<close>

record FunctionDelta =
  f_name :: "string option"
  f_arguments :: "string option"

record ToolCallDelta =
  d_index :: "int option"
  d_id :: "string option"
  d_function :: "FunctionDelta option"

record Delta =
  delta_content :: "string option"
  delta_tool_calls :: "ToolCallDelta list option"

record Choice =
  choice_delta :: "Delta option"
  finish_reason :: "string option"

record StreamChunk =
  choices :: "Choice list option"

record GenerateContentResponse =
  candidates :: "Content list"

text \<open>
  \<^verbatim>\<open>toolCallsByIndex\<close> is a JavaScript \<^verbatim>\<open>Map\<close>: an association list in insertion order,
  where \<^verbatim>\<open>set\<close> on a key that is present replaces the value in place and on a new key
  appends, which is \<^const>\<open>AList.update\<close>.
\<close>

type_synonym accumulator = "(int \<times> DeepSeekToolCall) list"

definition digit_char :: "nat \<Rightarrow> char" where
  "digit_char d = ''0123456789'' ! (d mod 10)"

fun decimal :: "nat \<Rightarrow> string" where
  "decimal n = (if 10 \<le> n then decimal (n div 10) @ [digit_char n] else [digit_char n])"

definition numberToString :: "int \<Rightarrow> string" where
  \<comment> \<open>The text a template literal gives an integral index.\<close>
  "numberToString i = (if 0 \<le> i then decimal (nat i) else CHR ''-'' # decimal (nat (- i)))"

definition createGeminiStreamTextChunk :: "string \<Rightarrow> GenerateContentResponse" where
  "createGeminiStreamTextChunk t =
     \<lparr>candidates =
        [\<lparr>c_role = Some ''model'',
          c_parts = Some [\<lparr>part_text = Some t, functionCall = None, functionResponse = None\<rparr>]\<rparr>]\<rparr>"

text \<open>
  \<open>pa\<close> is \<^verbatim>\<open>JSON.parse\<close> on an argument string and \<open>pc\<close> is \<^verbatim>\<open>JSON.parse\<close> on a frame
  payload; \<open>None\<close> is the thrown \<^verbatim>\<open>SyntaxError\<close>. Both are parameters of the model.
\<close>

definition toolCallPart :: "(string \<Rightarrow> json option) \<Rightarrow> DeepSeekToolCall \<Rightarrow> Part" where
  "toolCallPart pa tc =
     (let parsedArgs =
            (if tc_arguments tc \<noteq> [] then
               (case pa (tc_arguments tc) of
                  Some j \<Rightarrow> j
                | None \<Rightarrow> JObj [(''__raw'', JStr (tc_arguments tc))])
             else JObj [])
      in \<lparr>part_text = None,
          functionCall = Some \<lparr>fc_id = Some (tc_id tc), fc_name = tc_name tc,
                                fc_args = parsedArgs\<rparr>,
          functionResponse = None\<rparr>)"

definition createGeminiStreamToolCallsChunk ::
  "(string \<Rightarrow> json option) \<Rightarrow> DeepSeekToolCall list \<Rightarrow> GenerateContentResponse" where
  "createGeminiStreamToolCallsChunk pa toolCalls =
     \<lparr>candidates = [\<lparr>c_role = Some ''model'', c_parts = Some (map (toolCallPart pa) toolCalls)\<rparr>]\<rparr>"

definition flushToolCallsIfAny ::
  "(string \<Rightarrow> json option) \<Rightarrow> accumulator \<Rightarrow> GenerateContentResponse list" where
  \<comment> \<open>The chunks the flush yields. \<^verbatim>\<open>sort\<close> with \<^verbatim>\<open>a - b\<close> is a stable ascending sort.\<close>
  "flushToolCallsIfAny pa toolCallsByIndex =
     (let calls = map snd (sort_key fst toolCallsByIndex)
      in if length calls > 0 then [createGeminiStreamToolCallsChunk pa calls] else [])"

definition deltaIndex :: "ToolCallDelta \<Rightarrow> int" where
  \<comment> \<open>\<^verbatim>\<open>tc.index ?? 0\<close>\<close>
  "deltaIndex tc = (case d_index tc of Some i \<Rightarrow> i | None \<Rightarrow> 0)"

definition deltaName :: "ToolCallDelta \<Rightarrow> string option" where
  \<comment> \<open>\<^verbatim>\<open>tc.function?.name\<close>\<close>
  "deltaName tc = Option.bind (d_function tc) f_name"

definition deltaArguments :: "ToolCallDelta \<Rightarrow> string option" where
  \<comment> \<open>\<^verbatim>\<open>tc.function?.arguments\<close>\<close>
  "deltaArguments tc = Option.bind (d_function tc) f_arguments"

definition mergeToolCallDelta :: "accumulator \<Rightarrow> ToolCallDelta \<Rightarrow> accumulator" where
  \<comment> \<open>The body of the loop over \<^verbatim>\<open>delta.tool_calls\<close>.\<close>
  "mergeToolCallDelta toolCallsByIndex tc =
     (let idx = deltaIndex tc;
          existing = map_of toolCallsByIndex idx;
          id = or_else (d_id tc)
                 (or_else (map_option tc_id existing) (''call_'' @ numberToString idx));
          name = or_else (deltaName tc) (or_else (map_option tc_name existing) ''tool'');
          argsDelta = or_else (deltaArguments tc) [];
          args = or_else (map_option tc_arguments existing) [] @ or_else (Some argsDelta) []
      in AList.update idx \<lparr>tc_id = id, tc_name = name, tc_arguments = args\<rparr> toolCallsByIndex)"

definition accumulate :: "ToolCallDelta list \<Rightarrow> accumulator" where
  \<comment> \<open>The accumulator of a call after the tool-call deltas \<open>ds\<close>, merged in arrival order.\<close>
  "accumulate ds = foldl mergeToolCallDelta [] ds"

definition is_js_space :: "char \<Rightarrow> bool" where
  \<comment> \<open>The white space and line terminators below \<open>0x100\<close> that \<^verbatim>\<open>trim\<close> strips.\<close>
  "is_js_space c = (of_char c \<in> {9, 10, 11, 12, 13, 32, 160 :: nat})"

definition trim :: "string \<Rightarrow> string" where
  "trim s = rev (dropWhile is_js_space (rev (dropWhile is_js_space s)))"

fun split_lines :: "string \<Rightarrow> string list" where
  \<comment> \<open>\<^verbatim>\<open>s.split(/\r?\n/)\<close>\<close>
  "split_lines [] = [[]]"
| "split_lines [c] = (if c = CHR 0x0A then [[], []] else [[c]])"
| "split_lines (c # d # cs) =
     (if c = CHR 0x0A then [] # split_lines (d # cs)
      else if c = CHR 0x0D \<and> d = CHR 0x0A then [] # split_lines cs
      else (case split_lines (d # cs) of
              [] \<Rightarrow> [[c]]
            | l # ls \<Rightarrow> (c # l) # ls))"

definition dataPayload :: "string \<Rightarrow> string option" where
  \<comment> \<open>The payload of a \<^verbatim>\<open>data:\<close> line; \<open>None\<close> where the loop body hits \<^verbatim>\<open>continue\<close>.\<close>
  "dataPayload rawLine =
     (let line = trim rawLine
      in if \<not> startsWith line ''data:'' then None
         else let data = trim (drop (length ''data:'') line)
              in if data = [] then None else Some data)"

definition firstChoice :: "StreamChunk \<Rightarrow> Choice option" where
  \<comment> \<open>\<^verbatim>\<open>chunk.choices?.[0]\<close>\<close>
  "firstChoice chunk =
     (case choices chunk of None \<Rightarrow> None | Some [] \<Rightarrow> None | Some (c # _) \<Rightarrow> Some c)"

definition processChunk ::
  "(string \<Rightarrow> json option) \<Rightarrow> accumulator \<Rightarrow> StreamChunk
   \<Rightarrow> GenerateContentResponse list \<times> accumulator" where
  \<comment> \<open>A parsed frame: the chunks it yields and the accumulator it leaves.\<close>
  "processChunk pa toolCallsByIndex chunk =
     (let choice = firstChoice chunk;
          delta = Option.bind choice choice_delta;
          content = Option.bind delta delta_content;
          out1 = (if truthy content then [createGeminiStreamTextChunk (the content)] else []);
          acc' = (case Option.bind delta delta_tool_calls of
                    None \<Rightarrow> toolCallsByIndex
                  | Some tcs \<Rightarrow>
                      if length tcs > 0 then foldl mergeToolCallDelta toolCallsByIndex tcs
                      else toolCallsByIndex);
          out2 = (if truthy (Option.bind choice finish_reason)
                  then flushToolCallsIfAny pa acc' else [])
      in (out1 @ out2, acc'))"

definition processLine ::
  "(string \<Rightarrow> StreamChunk option) \<Rightarrow> (string \<Rightarrow> json option) \<Rightarrow> accumulator \<Rightarrow> string
   \<Rightarrow> GenerateContentResponse list \<times> accumulator \<times> bool" where
  \<comment> \<open>One line: the chunks yielded, the accumulator, and whether the generator returned.\<close>
  "processLine pc pa toolCallsByIndex rawLine =
     (case dataPayload rawLine of
        None \<Rightarrow> ([], toolCallsByIndex, False)
      | Some data \<Rightarrow>
          if data = ''[DONE]'' then (flushToolCallsIfAny pa toolCallsByIndex, toolCallsByIndex, True)
          else (case pc data of
                  None \<Rightarrow> ([], toolCallsByIndex, False)
                | Some chunk \<Rightarrow>
                    (let (out, acc') = processChunk pa toolCallsByIndex chunk
                     in (out, acc', False))))"

fun processLines ::
  "(string \<Rightarrow> StreamChunk option) \<Rightarrow> (string \<Rightarrow> json option) \<Rightarrow> accumulator \<Rightarrow> string list
   \<Rightarrow> GenerateContentResponse list \<times> accumulator \<times> bool" where
  "processLines pc pa acc [] = ([], acc, False)"
| "processLines pc pa acc (rawLine # rest) =
     (case processLine pc pa acc rawLine of
        (out, acc', True) \<Rightarrow> (out, acc', True)
      | (out, acc', False) \<Rightarrow>
          (case processLines pc pa acc' rest of
             (out', acc'', returned) \<Rightarrow> (out @ out', acc'', returned)))"

text \<open>
  The generator over the reads of the transport: each element of \<open>reads\<close> is the text one
  \<^verbatim>\<open>reader.read()\<close> decodes to, and the end of the list is the read that reports
  \<^verbatim>\<open>done\<close>. The result is the sequence of chunks a consumer that drains the generator
  receives.
\<close>

fun gen_loop ::
  "(string \<Rightarrow> StreamChunk option) \<Rightarrow> (string \<Rightarrow> json option) \<Rightarrow> string \<Rightarrow> accumulator
   \<Rightarrow> string list \<Rightarrow> GenerateContentResponse list" where
  "gen_loop pc pa buffer acc [] =
     (let lines = split_lines buffer
      in case processLines pc pa acc (butlast lines) of
           (out, acc', returned) \<Rightarrow>
             if returned then out else out @ flushToolCallsIfAny pa acc')"
| "gen_loop pc pa buffer acc (v # reads) =
     (let lines = split_lines (buffer @ v);
          buffer' = (if lines = [] then [] else last lines)
      in case processLines pc pa acc (butlast lines) of
           (out, acc', returned) \<Rightarrow>
             if returned then out else out @ gen_loop pc pa buffer' acc' reads)"

definition gen ::
  "(string \<Rightarrow> StreamChunk option) \<Rightarrow> (string \<Rightarrow> json option) \<Rightarrow> string list
   \<Rightarrow> GenerateContentResponse list" where
  "gen pc pa reads = gen_loop pc pa [] [] reads"

section \<open>Notions used in the statements\<close>

definition textPart :: "string \<Rightarrow> Part" where
  \<comment> \<open>The part \<^verbatim>\<open>{text: t}\<close>.\<close>
  "textPart t = \<lparr>part_text = Some t, functionCall = None, functionResponse = None\<rparr>"

definition withSystemInstruction ::
  "GenerateContentParameters \<Rightarrow> Tool list option \<Rightarrow> system_instruction
   \<Rightarrow> GenerateContentParameters" where
  \<comment> \<open>The request with a configuration that carries the system instruction \<open>si\<close>.\<close>
  "withSystemInstruction request tools si =
     request\<lparr>req_config := Some \<lparr>cfg_systemInstruction = si, cfg_tools = tools\<rparr>\<rparr>"

definition expectedToolContent ::
  "((string \<times> json) list \<Rightarrow> string) \<Rightarrow> FunctionResponse \<Rightarrow> string" where
  \<comment> \<open>The payload's string \<^verbatim>\<open>output\<close> member when it has one, else the serialized payload.\<close>
  "expectedToolContent js fr =
     (case fr_response fr of
        None \<Rightarrow> js []
      | Some payload \<Rightarrow>
          (case map_of payload ''output'' of Some (JStr s) \<Rightarrow> s | _ \<Rightarrow> js payload))"

definition expectedToolCallId :: "string \<Rightarrow> FunctionResponse \<Rightarrow> string" where
  \<comment> \<open>The response's identifier when present, else its name (or \<open>tool\<close>), \<open>_\<close> and a suffix.\<close>
  "expectedToolCallId suffix fr =
     (case fr_id fr of
        Some i \<Rightarrow> i
      | None \<Rightarrow> (case fr_name fr of Some n \<Rightarrow> n | None \<Rightarrow> ''tool'') @ ''_'' @ suffix)"

definition drawsBefore :: "FunctionResponse list \<Rightarrow> nat \<Rightarrow> nat" where
  \<comment> \<open>How many of the first \<open>i\<close> responses lack an identifier, each costing one random draw.\<close>
  "drawsBefore frs i = length (filter (\<lambda>fr. fr_id fr = None) (take i frs))"

definition contentDelta :: "StreamChunk \<Rightarrow> string option" where
  \<comment> \<open>\<^verbatim>\<open>chunk.choices?.[0]?.delta?.content\<close>\<close>
  "contentDelta chunk = Option.bind (Option.bind (firstChoice chunk) choice_delta) delta_content"

definition toolCallDeltas :: "StreamChunk \<Rightarrow> ToolCallDelta list" where
  \<comment> \<open>The tool-call deltas of a frame, none when the member is missing.\<close>
  "toolCallDeltas chunk =
     (case Option.bind (Option.bind (firstChoice chunk) choice_delta) delta_tool_calls of
        None \<Rightarrow> [] | Some tcs \<Rightarrow> tcs)"

definition finishSignal :: "StreamChunk \<Rightarrow> bool" where
  \<comment> \<open>\<^verbatim>\<open>choice?.finish_reason\<close> is truthy.\<close>
  "finishSignal chunk = truthy (Option.bind (firstChoice chunk) finish_reason)"

definition frameContent :: "(string \<Rightarrow> StreamChunk option) \<Rightarrow> string \<Rightarrow> string option" where
  \<comment> \<open>The content delta of the frame a line carries, if the line carries a parsed frame.\<close>
  "frameContent pc rawLine =
     (case dataPayload rawLine of
        None \<Rightarrow> None
      | Some d \<Rightarrow> if d = ''[DONE]'' then None
                  else (case pc d of None \<Rightarrow> None | Some chunk \<Rightarrow> contentDelta chunk))"

definition chunkParts :: "GenerateContentResponse \<Rightarrow> Part list" where
  "chunkParts r = concat (map (\<lambda>c. case c_parts c of None \<Rightarrow> [] | Some ps \<Rightarrow> ps) (candidates r))"

definition isTextChunk :: "GenerateContentResponse \<Rightarrow> bool" where
  "isTextChunk r = list_ex (\<lambda>p. part_text p \<noteq> None) (chunkParts r)"

definition textOnly :: "Part list option \<Rightarrow> bool" where
  \<comment> \<open>Every part of the turn carries a text; so does a turn without parts.\<close>
  "textOnly ps =
     list_all (\<lambda>p. part_text p \<noteq> None) (case ps of None \<Rightarrow> [] | Some l \<Rightarrow> l)"

definition joinedText :: "Part list option \<Rightarrow> string" where
  \<comment> \<open>The texts of the parts, concatenated in order.\<close>
  "joinedText ps =
     concat (map (\<lambda>p. case part_text p of Some t \<Rightarrow> t | None \<Rightarrow> [])
               (case ps of None \<Rightarrow> [] | Some l \<Rightarrow> l))"

definition noEmptyText :: "GenerateContentResponse \<Rightarrow> bool" where
  \<comment> \<open>No part of the chunk is an empty text.\<close>
  "noEmptyText r = list_all (\<lambda>p. part_text p \<noteq> Some []) (chunkParts r)"

definition runLines ::
  "(string \<Rightarrow> StreamChunk option) \<Rightarrow> (string \<Rightarrow> json option) \<Rightarrow> accumulator \<Rightarrow> string list
   \<Rightarrow> GenerateContentResponse list" where
  \<comment> \<open>What the generator yields over complete lines, with the end-of-stream flush unless
      it returned at the terminal sentinel.\<close>
  "runLines pc pa acc lines =
     (case processLines pc pa acc lines of
        (out, acc', returned) \<Rightarrow> if returned then out else out @ flushToolCallsIfAny pa acc')"

definition cons_head :: "char \<Rightarrow> string list \<Rightarrow> string list" where
  "cons_head c xs = (case xs of [] \<Rightarrow> [[c]] | l # ls \<Rightarrow> (c # l) # ls)"

definition wellNamed :: "accumulator \<Rightarrow> bool" where
  \<comment> \<open>Every entry has a non-empty id and name.\<close>
  "wellNamed acc = (\<forall>(i, tc) \<in> set acc. tc_id tc \<noteq> [] \<and> tc_name tc \<noteq> [])"

section \<open>Example inputs\<close>

text \<open>Host functions and inputs at which the theorems below are instantiated.\<close>

definition ex_sp :: "Part \<Rightarrow> string" where
  "ex_sp p = ''{\"functionCall\":{}}''"

definition ex_js :: "(string \<times> json) list \<Rightarrow> string" where
  "ex_js payload = (if payload = [] then ''{}'' else ''{\"n\":1}'')"

definition ex_rnd :: "nat \<Rightarrow> string" where
  "ex_rnd k = (if k = 0 then ''8f3a1c'' else ''b04e77'')"

definition ex_pa :: "string \<Rightarrow> json option" where
  "ex_pa s = (if s = ''{\"a\":1}'' then Some (JObj [(''a'', JNum 1)]) else None)"

definition ex_Number :: "string \<Rightarrow> int jsnumber" where
  "ex_Number s = (if s = ''1'' then Finite 1 else NotFinite)"

definition chunk_content :: "string \<Rightarrow> StreamChunk" where
  "chunk_content t =
     \<lparr>choices = Some [\<lparr>choice_delta = Some \<lparr>delta_content = Some t, delta_tool_calls = None\<rparr>,
                       finish_reason = None\<rparr>]\<rparr>"

definition delta_first :: ToolCallDelta where
  "delta_first = \<lparr>d_index = Some 0, d_id = Some ''call_a'',
                  d_function = Some \<lparr>f_name = Some ''read'', f_arguments = Some ''{\"a\":1''\<rparr>\<rparr>"

definition delta_rest :: ToolCallDelta where
  "delta_rest = \<lparr>d_index = Some 0, d_id = None,
                 d_function = Some \<lparr>f_name = None, f_arguments = Some ''}''\<rparr>\<rparr>"

definition delta_other_id :: ToolCallDelta where
  "delta_other_id = \<lparr>d_index = Some 0, d_id = Some ''call_b'',
                     d_function = Some \<lparr>f_name = Some ''write'', f_arguments = None\<rparr>\<rparr>"

definition delta_idx1 :: ToolCallDelta where
  "delta_idx1 = \<lparr>d_index = Some 1, d_id = Some ''call_y'',
                 d_function = Some \<lparr>f_name = Some ''second'', f_arguments = None\<rparr>\<rparr>"

definition delta_idx0 :: ToolCallDelta where
  "delta_idx0 = \<lparr>d_index = Some 0, d_id = Some ''call_x'',
                 d_function = Some \<lparr>f_name = Some ''first'', f_arguments = None\<rparr>\<rparr>"

definition chunk_finish :: StreamChunk where
  "chunk_finish =
     \<lparr>choices = Some [\<lparr>choice_delta = Some \<lparr>delta_content = None,
                                             delta_tool_calls = Some [delta_rest]\<rparr>,
                       finish_reason = Some ''tool_calls''\<rparr>]\<rparr>"

definition ex_pc :: "string \<Rightarrow> StreamChunk option" where
  "ex_pc d =
     (if d = ''{\"choices\":[{\"delta\":{\"content\":\"hi\"}}]}'' then Some (chunk_content ''hi'')
      else if d = ''{\"choices\":[{\"delta\":{\"content\":\"\"}}]}'' then Some (chunk_content [])
      else if d = ''{\"finish\":1}'' then Some chunk_finish
      else None)"

definition line_hi :: string where
  "line_hi = ''data: {\"choices\":[{\"delta\":{\"content\":\"hi\"}}]}''"

definition line_empty_content :: string where
  "line_empty_content = ''data: {\"choices\":[{\"delta\":{\"content\":\"\"}}]}''"

definition line_malformed :: string where
  "line_malformed = ''data: {\"choices\":[{\"del''"

definition line_finish :: string where
  "line_finish = ''data: {\"finish\":1}''"

definition fr_with_id :: FunctionResponse where
  "fr_with_id = \<lparr>fr_id = Some ''call_1'', fr_name = Some ''calc'',
                 fr_response = Some [(''output'', JStr ''42'')]\<rparr>"

definition fr_without_id :: FunctionResponse where
  "fr_without_id = \<lparr>fr_id = None, fr_name = Some ''search'',
                    fr_response = Some [(''n'', JNum 1)]\<rparr>"

definition frPart :: "FunctionResponse \<Rightarrow> Part" where
  "frPart fr = \<lparr>part_text = None, functionCall = None, functionResponse = Some fr\<rparr>"

definition textAndCallPart :: Part where
  "textAndCallPart =
     \<lparr>part_text = Some ''there'',
      functionCall = Some \<lparr>fc_id = Some ''call_1'', fc_name = ''calc'', fc_args = JObj []\<rparr>,
      functionResponse = None\<rparr>"

definition ex_request :: GenerateContentParameters where
  "ex_request =
     \<lparr>req_model = Some ''gemini-pro'',
      req_contents = ContentArray
        [IsContent \<lparr>c_role = Some ''user'', c_parts = Some [textPart ''hello'']\<rparr>],
      req_config = None\<rparr>"

definition ex_env :: env where
  "ex_env = [''GEMINI_CLI_PROVIDER'' \<mapsto> ''openai_compatible'',
             ''OPENAI_COMPAT_API_KEY'' \<mapsto> ''sk-1'',
             ''OPENAI_COMPAT_TEMPERATURE'' \<mapsto> ''1'']"

section \<open>Provider enablement\<close>

lemma isDeepSeekEnabled_unfold:
  "isDeepSeekEnabled e =
     (getProviderFromEnv e = ''deepseek'' \<or> getProviderFromEnv e = ''openai_compatible'' \<or>
      (getProviderFromEnv e = [] \<and> truthy (e ''DEEPSEEK_API_KEY'') \<and>
       \<not> truthy (e ''GEMINI_API_KEY'')))"
  by (auto simp: isDeepSeekEnabled_def Let_def)

lemma getProviderFromEnv_empty_iff:
  "getProviderFromEnv e = [] \<longleftrightarrow> \<not> truthy (e ''GEMINI_CLI_PROVIDER'')"
  by (auto simp: getProviderFromEnv_def or_else_def toLowerCase_def truthy_def
           split: option.splits)

text \<open>
  Claim C4. The enablement predicate is true exactly when the lower-cased provider selector
  is \<open>deepseek\<close> or \<open>openai_compatible\<close>, or the selector is unset (or empty) and
  \<open>DEEPSEEK_API_KEY\<close> is present while \<open>GEMINI_API_KEY\<close> is absent; whenever the selector
  is set to anything else the predicate is false.
\<close>

theorem isDeepSeekEnabled_precedence:
  "(isDeepSeekEnabled e \<longleftrightarrow>
      getProviderFromEnv e \<in> {''deepseek'', ''openai_compatible''} \<or>
      (\<not> truthy (e ''GEMINI_CLI_PROVIDER'') \<and> truthy (e ''DEEPSEEK_API_KEY'') \<and>
       \<not> truthy (e ''GEMINI_API_KEY'')))
   \<and> (truthy (e ''GEMINI_CLI_PROVIDER'') \<and>
        getProviderFromEnv e \<notin> {''deepseek'', ''openai_compatible''}
        \<longrightarrow> \<not> isDeepSeekEnabled e)"
  using getProviderFromEnv_empty_iff [of e]
  by (auto simp: isDeepSeekEnabled_unfold)

theorem isDeepSeekEnabled_precedence_witness:
  "isDeepSeekEnabled [''GEMINI_CLI_PROVIDER'' \<mapsto> ''DeepSeek'']
   \<and> isDeepSeekEnabled [''DEEPSEEK_API_KEY'' \<mapsto> ''sk-1'']
   \<and> \<not> isDeepSeekEnabled [''DEEPSEEK_API_KEY'' \<mapsto> ''sk-1'', ''GEMINI_API_KEY'' \<mapsto> ''g'']
   \<and> truthy ([''GEMINI_CLI_PROVIDER'' \<mapsto> ''gemini'', ''DEEPSEEK_API_KEY'' \<mapsto> ''sk-1'']
        ''GEMINI_CLI_PROVIDER'')
   \<and> getProviderFromEnv [''GEMINI_CLI_PROVIDER'' \<mapsto> ''gemini'', ''DEEPSEEK_API_KEY'' \<mapsto> ''sk-1'']
        \<notin> {''deepseek'', ''openai_compatible''}
   \<and> \<not> isDeepSeekEnabled
        [''GEMINI_CLI_PROVIDER'' \<mapsto> ''gemini'', ''DEEPSEEK_API_KEY'' \<mapsto> ''sk-1'']"
proof -
  let ?e1 = "[''GEMINI_CLI_PROVIDER'' \<mapsto> ''DeepSeek'']"
  let ?e2 = "[''DEEPSEEK_API_KEY'' \<mapsto> ''sk-1'']"
  let ?e3 = "[''DEEPSEEK_API_KEY'' \<mapsto> ''sk-1'', ''GEMINI_API_KEY'' \<mapsto> ''g'']"
  let ?e4 = "[''GEMINI_CLI_PROVIDER'' \<mapsto> ''gemini'', ''DEEPSEEK_API_KEY'' \<mapsto> ''sk-1'']"
  have p1: "getProviderFromEnv ?e1 = ''deepseek''" by code_simp
  have p2: "getProviderFromEnv ?e2 = []" by code_simp
  have p3: "getProviderFromEnv ?e3 = []" by code_simp
  have p4: "getProviderFromEnv ?e4 = ''gemini''" by code_simp
  show ?thesis
    using isDeepSeekEnabled_precedence [of ?e1] isDeepSeekEnabled_precedence [of ?e2]
      isDeepSeekEnabled_precedence [of ?e3] isDeepSeekEnabled_precedence [of ?e4]
    by (simp add: p1 p2 p3 p4 truthy_def)
qed


section \<open>Tool-call accumulator\<close>

lemma or_else_simps:
  "or_else None d = d" "or_else (Some []) d = d" "s \<noteq> [] \<Longrightarrow> or_else (Some s) d = s"
  by (simp_all add: or_else_def truthy_def)

lemma or_else_some_self: "or_else (Some s) [] = s"
  by (cases "s = []") (simp_all add: or_else_simps)

lemma or_else_none_empty: "or_else v [] = (case v of None \<Rightarrow> [] | Some s \<Rightarrow> s)"
  by (cases v) (simp_all add: or_else_simps or_else_some_self)

lemma or_else_nonempty: "d \<noteq> [] \<Longrightarrow> or_else v d \<noteq> []"
  by (auto simp: or_else_def truthy_def split: option.splits)

lemma set_update_subset: "set (AList.update k v al) \<subseteq> insert (k, v) (set al)"
  by (induction al) auto

lemma wellNamed_merge: "wellNamed acc \<Longrightarrow> wellNamed (mergeToolCallDelta acc tc)"
proof -
  assume w: "wellNamed acc"
  let ?idx = "deltaIndex tc"
  let ?ex = "map_of acc ?idx"
  have i: "or_else (d_id tc) (or_else (map_option tc_id ?ex) (''call_'' @ numberToString ?idx)) \<noteq> []"
    by (intro or_else_nonempty) simp
  have n: "or_else (deltaName tc) (or_else (map_option tc_name ?ex) ''tool'') \<noteq> []"
    by (intro or_else_nonempty) simp
  show ?thesis
    using w i n set_update_subset
    unfolding wellNamed_def mergeToolCallDelta_def Let_def
    by fastforce
qed

lemma wellNamed_foldl: "wellNamed acc \<Longrightarrow> wellNamed (foldl mergeToolCallDelta acc ds)"
  by (induction ds arbitrary: acc) (simp_all add: wellNamed_merge)

lemma wellNamed_accumulate: "wellNamed (accumulate ds)"
  unfolding accumulate_def by (rule wellNamed_foldl) (simp add: wellNamed_def)

lemma wellNamed_lookup:
  "wellNamed acc \<Longrightarrow> map_of acc i = Some ex \<Longrightarrow> tc_id ex \<noteq> [] \<and> tc_name ex \<noteq> []"
  by (auto simp: wellNamed_def dest: map_of_SomeD)

lemma map_of_merge_same:
  "map_of (mergeToolCallDelta acc tc) (deltaIndex tc) =
     Some \<lparr>tc_id = or_else (d_id tc)
                     (or_else (map_option tc_id (map_of acc (deltaIndex tc)))
                        (''call_'' @ numberToString (deltaIndex tc))),
           tc_name = or_else (deltaName tc)
                      (or_else (map_option tc_name (map_of acc (deltaIndex tc))) ''tool''),
           tc_arguments =
             (case map_of acc (deltaIndex tc) of None \<Rightarrow> [] | Some ex \<Rightarrow> tc_arguments ex)
             @ (case deltaArguments tc of None \<Rightarrow> [] | Some a \<Rightarrow> a)\<rparr>"
  by (simp add: mergeToolCallDelta_def Let_def update_conv' or_else_some_self or_else_none_empty
       split: option.splits)

lemma map_of_merge_other:
  "j \<noteq> deltaIndex tc \<Longrightarrow> map_of (mergeToolCallDelta acc tc) j = map_of acc j"
  by (simp add: mergeToolCallDelta_def Let_def update_conv')

text \<open>
  Claim C1, as amended. Merging a tool-call delta into the accumulator of a call: when the
  index already has an entry, its id becomes the delta's id if the delta carries a
  non-empty one and is kept otherwise, likewise its name, and its arguments buffer is the
  old buffer with the delta's fragment appended; when the index has no entry yet, the id is
  the delta's or \<open>call_<index>\<close>, the name is the delta's or \<open>tool\<close>, and the buffer is the
  fragment; the entries of all other indices are untouched.
\<close>

theorem mergeToolCallDelta_fields:
  "(map_of (accumulate ds) (deltaIndex tc) = Some ex \<longrightarrow>
      map_of (mergeToolCallDelta (accumulate ds) tc) (deltaIndex tc) =
        Some \<lparr>tc_id = (if truthy (d_id tc) then the (d_id tc) else tc_id ex),
              tc_name = (if truthy (deltaName tc) then the (deltaName tc) else tc_name ex),
              tc_arguments = tc_arguments ex
                 @ (case deltaArguments tc of None \<Rightarrow> [] | Some a \<Rightarrow> a)\<rparr>)
   \<and> (map_of (accumulate ds) (deltaIndex tc) = None \<longrightarrow>
      map_of (mergeToolCallDelta (accumulate ds) tc) (deltaIndex tc) =
        Some \<lparr>tc_id = (if truthy (d_id tc) then the (d_id tc)
                        else ''call_'' @ numberToString (deltaIndex tc)),
              tc_name = (if truthy (deltaName tc) then the (deltaName tc) else ''tool''),
              tc_arguments = (case deltaArguments tc of None \<Rightarrow> [] | Some a \<Rightarrow> a)\<rparr>)
   \<and> (\<forall>j. j \<noteq> deltaIndex tc \<longrightarrow>
        map_of (mergeToolCallDelta (accumulate ds) tc) j = map_of (accumulate ds) j)"
proof (intro conjI impI allI)
  assume ex: "map_of (accumulate ds) (deltaIndex tc) = Some ex"
  have ne: "tc_id ex \<noteq> [] \<and> tc_name ex \<noteq> []"
    using wellNamed_lookup [OF wellNamed_accumulate ex] .
  show "map_of (mergeToolCallDelta (accumulate ds) tc) (deltaIndex tc) =
        Some \<lparr>tc_id = (if truthy (d_id tc) then the (d_id tc) else tc_id ex),
              tc_name = (if truthy (deltaName tc) then the (deltaName tc) else tc_name ex),
              tc_arguments = tc_arguments ex
                 @ (case deltaArguments tc of None \<Rightarrow> [] | Some a \<Rightarrow> a)\<rparr>"
    using ne by (simp add: map_of_merge_same ex or_else_def truthy_def)
next
  assume "map_of (accumulate ds) (deltaIndex tc) = None"
  then show "map_of (mergeToolCallDelta (accumulate ds) tc) (deltaIndex tc) =
        Some \<lparr>tc_id = (if truthy (d_id tc) then the (d_id tc)
                        else ''call_'' @ numberToString (deltaIndex tc)),
              tc_name = (if truthy (deltaName tc) then the (deltaName tc) else ''tool''),
              tc_arguments = (case deltaArguments tc of None \<Rightarrow> [] | Some a \<Rightarrow> a)\<rparr>"
    by (simp add: map_of_merge_same or_else_def truthy_def)
next
  fix j assume "j \<noteq> deltaIndex tc"
  then show "map_of (mergeToolCallDelta (accumulate ds) tc) j = map_of (accumulate ds) j"
    by (rule map_of_merge_other)
qed

text \<open>
  The theorem at the fragments \<open>{"a":1\<close> and \<open>}\<close> of one tool call: the second delta has no
  id and no name, so both are kept and the buffer grows to \<open>{"a":1}\<close>; and at the first
  delta of a call, merged into the empty accumulator.
\<close>

theorem mergeToolCallDelta_fields_witness:
  "map_of (accumulate [delta_first]) (deltaIndex delta_rest) =
     Some \<lparr>tc_id = ''call_a'', tc_name = ''read'', tc_arguments = ''{\"a\":1''\<rparr>
   \<and> map_of (mergeToolCallDelta (accumulate [delta_first]) delta_rest) (deltaIndex delta_rest) =
     Some \<lparr>tc_id = ''call_a'', tc_name = ''read'', tc_arguments = ''{\"a\":1}''\<rparr>
   \<and> map_of (accumulate []) (deltaIndex delta_first) = None
   \<and> map_of (mergeToolCallDelta (accumulate []) delta_first) (deltaIndex delta_first) =
     Some \<lparr>tc_id = ''call_a'', tc_name = ''read'', tc_arguments = ''{\"a\":1''\<rparr>
   \<and> 1 \<noteq> deltaIndex delta_rest
   \<and> map_of (mergeToolCallDelta (accumulate [delta_first]) delta_rest) 1 =
       map_of (accumulate [delta_first]) 1"
proof -
  let ?e = "\<lparr>tc_id = ''call_a'', tc_name = ''read'', tc_arguments = ''{\"a\":1''\<rparr>"
  have h1: "map_of (accumulate [delta_first]) (deltaIndex delta_rest) = Some ?e"
    by code_simp
  have h2: "map_of (accumulate []) (deltaIndex delta_first) = None"
    by code_simp
  have h3: "1 \<noteq> deltaIndex delta_rest"
    by code_simp
  have t1: "d_id delta_rest = None" "deltaName delta_rest = None"
    "deltaArguments delta_rest = Some ''}''"
    by code_simp+
  have t2: "d_id delta_first = Some ''call_a''" "deltaName delta_first = Some ''read''"
    "deltaArguments delta_first = Some ''{\"a\":1''"
    by code_simp+
  show ?thesis
    using mergeToolCallDelta_fields [of "[delta_first]" delta_rest ?e]
      mergeToolCallDelta_fields [of "[]" delta_first] h1 h2 h3
    by (simp add: t1 t2 truthy_def)
qed

text \<open>
  Claim C1 as stated fails: a later delta that carries its own id and name replaces the
  ones already set for the index.
\<close>

theorem mergeToolCallDelta_overwrites_id:
  "map_of (accumulate [delta_first]) 0 =
     Some \<lparr>tc_id = ''call_a'', tc_name = ''read'', tc_arguments = ''{\"a\":1''\<rparr>
   \<and> map_of (mergeToolCallDelta (accumulate [delta_first]) delta_other_id) 0 =
     Some \<lparr>tc_id = ''call_b'', tc_name = ''write'', tc_arguments = ''{\"a\":1''\<rparr>"
  by code_simp


section \<open>Lines of the stream\<close>

lemma split_lines_nonempty: "split_lines s \<noteq> []"
  by (induction s rule: split_lines.induct) (auto split: list.splits)

lemma split_lines_LF: "split_lines (CHR 0x0A # s) = [] # split_lines s"
  by (cases s) simp_all

lemma split_lines_other:
  "c \<noteq> CHR 0x0A \<Longrightarrow> \<not> (c = CHR 0x0D \<and> (\<exists>t. s = CHR 0x0A # t)) \<Longrightarrow>
   split_lines (c # s) = cons_head c (split_lines s)"
  by (cases s) (auto simp: cons_head_def split: list.splits)

lemma split_lines_single: "split_lines s = [l] \<Longrightarrow> l = s"
  by (induction s arbitrary: l rule: split_lines.induct)
     (auto split: if_splits list.splits simp: split_lines_nonempty)

text \<open>
  Splitting is compatible with the rolling buffer: the lines of \<open>a @ b\<close> are the complete
  lines of \<open>a\<close> followed by the lines of what \<open>a\<close> left unfinished with \<open>b\<close> appended.
\<close>

lemma split_lines_append:
  "split_lines (a @ b) = butlast (split_lines a) @ split_lines (last (split_lines a) @ b)"
proof (induction a rule: split_lines.induct)
  case 1
  then show ?case by simp
next
  case (2 c)
  then show ?case by (simp add: split_lines_LF)
next
  case (3 c d cs)
  show ?case
  proof (cases "c = CHR 0x0A")
    case True
    then show ?thesis
      using 3(1) by (simp add: split_lines_LF split_lines_nonempty del: split_lines.simps(3))
  next
    case nLF: False
    show ?thesis
    proof (cases "c = CHR 0x0D \<and> d = CHR 0x0A")
      case True
      then show ?thesis
        using 3(2) nLF by (simp add: split_lines_nonempty)
    next
      case False
      have ih: "split_lines ((d # cs) @ b) =
                butlast (split_lines (d # cs)) @ split_lines (last (split_lines (d # cs)) @ b)"
        using 3(3) nLF False by simp
      have l: "split_lines (c # d # cs @ b) = cons_head c (split_lines (d # cs @ b))"
        using nLF False by (intro split_lines_other) auto
      have r: "split_lines (c # d # cs) = cons_head c (split_lines (d # cs))"
        using nLF False by (intro split_lines_other) auto
      obtain x xs where X: "split_lines (d # cs) = x # xs"
        using split_lines_nonempty [of "d # cs"] by (cases "split_lines (d # cs)") auto
      show ?thesis
      proof (cases xs)
        case Nil
        then have "x = d # cs" using X split_lines_single by blast
        then show ?thesis using X Nil r by (simp add: cons_head_def del: split_lines.simps(3))
      next
        case (Cons y ys)
        show ?thesis
          using l r ih X Cons
          by (simp add: cons_head_def del: split_lines.simps(3))
      qed
    qed
  qed
qed

lemma butlast_split_lines_append:
  "butlast (split_lines (a @ b)) =
     butlast (split_lines a) @ butlast (split_lines (last (split_lines a) @ b))"
  by (subst split_lines_append) (simp add: butlast_append split_lines_nonempty)

lemma processLines_append:
  "processLines pc pa acc (xs @ ys) =
     (case processLines pc pa acc xs of
        (out, acc', returned) \<Rightarrow>
          if returned then (out, acc', True)
          else (case processLines pc pa acc' ys of
                  (out', acc'', r) \<Rightarrow> (out @ out', acc'', r)))"
  by (induction xs arbitrary: acc) (auto split: prod.splits bool.splits)

lemma runLines_append:
  "runLines pc pa acc (xs @ ys) =
     (case processLines pc pa acc xs of
        (out, acc', returned) \<Rightarrow> if returned then out else out @ runLines pc pa acc' ys)"
  by (auto simp: runLines_def processLines_append split: prod.splits)

text \<open>
  However the transport cuts the text into reads, the generator yields what the complete
  lines of the whole text yield; an unfinished last line is never processed.
\<close>

lemma gen_loop_lines:
  "gen_loop pc pa buffer acc reads =
     runLines pc pa acc (butlast (split_lines (buffer @ concat reads)))"
proof (induction reads arbitrary: buffer acc)
  case Nil
  then show ?case by (simp add: runLines_def)
next
  case (Cons v reads)
  have "butlast (split_lines (buffer @ concat (v # reads))) =
        butlast (split_lines (buffer @ v))
        @ butlast (split_lines (last (split_lines (buffer @ v)) @ concat reads))"
    using butlast_split_lines_append [of "buffer @ v" "concat reads"] by simp
  then show ?case
    by (simp add: runLines_append Cons.IH split_lines_nonempty Let_def split: prod.splits)
qed

lemma gen_lines: "gen pc pa reads = runLines pc pa [] (butlast (split_lines (concat reads)))"
  by (simp add: gen_def gen_loop_lines)

section \<open>Frames\<close>

lemma processChunk_eq:
  "processChunk pa acc chunk =
     ((if truthy (contentDelta chunk) then [createGeminiStreamTextChunk (the (contentDelta chunk))]
       else [])
      @ (if finishSignal chunk
         then flushToolCallsIfAny pa (foldl mergeToolCallDelta acc (toolCallDeltas chunk)) else []),
      foldl mergeToolCallDelta acc (toolCallDeltas chunk))"
  by (auto simp: processChunk_def Let_def contentDelta_def toolCallDeltas_def finishSignal_def
           split: option.splits)

lemma processLine_chunk:
  "dataPayload rawLine = Some d \<Longrightarrow> d \<noteq> ''[DONE]'' \<Longrightarrow> pc d = Some chunk \<Longrightarrow>
   processLine pc pa acc rawLine =
     (fst (processChunk pa acc chunk), snd (processChunk pa acc chunk), False)"
  by (simp add: processLine_def split: prod.splits)

lemma processLine_done:
  "dataPayload rawLine = Some ''[DONE]'' \<Longrightarrow>
   processLine pc pa acc rawLine = (flushToolCallsIfAny pa acc, acc, True)"
  by (simp add: processLine_def)

lemma processLine_malformed:
  "dataPayload rawLine = Some d \<Longrightarrow> d \<noteq> ''[DONE]'' \<Longrightarrow> pc d = None \<Longrightarrow>
   processLine pc pa acc rawLine = ([], acc, False)"
  by (simp add: processLine_def)

lemma processLines_skip_middle:
  "(\<And>acc. processLine pc pa acc rawLine = ([], acc, False)) \<Longrightarrow>
   processLines pc pa acc (pre @ rawLine # rest) = processLines pc pa acc (pre @ rest)"
proof (induction pre arbitrary: acc)
  case Nil
  then show ?case by (simp split: prod.splits)
next
  case (Cons l pre)
  show ?case
    using Cons.IH [OF Cons.prems]
    by (simp split: prod.splits bool.splits)
qed


section \<open>Flushing the accumulated tool calls\<close>

lemma sort_key_Nil_iff: "sort_key f xs = [] \<longleftrightarrow> xs = []"
  by (metis length_sort length_0_conv)

lemma flush_empty: "flushToolCallsIfAny pa [] = []"
  by (simp add: flushToolCallsIfAny_def)

lemma flush_nonempty:
  "acc \<noteq> [] \<Longrightarrow>
   flushToolCallsIfAny pa acc = [createGeminiStreamToolCallsChunk pa (map snd (sort_key fst acc))]"
  by (simp add: flushToolCallsIfAny_def Let_def sort_key_Nil_iff)

text \<open>
  Claim C2. A flush of the empty accumulator yields nothing; a flush of a non-empty one
  yields exactly one chunk, whose parts are the accumulated tool calls, one part each, in
  ascending order of their indices whatever the order they arrived in. The terminal sentinel
  flushes and returns, a frame with a finish reason flushes after merging its own deltas,
  and a stream that ends without the sentinel is flushed once more at the end.
\<close>

theorem flush_sorted_single_chunk:
  "flushToolCallsIfAny pa [] = []
   \<and> (acc \<noteq> [] \<longrightarrow>
        (\<exists>entries. mset entries = mset acc \<and> sorted (map fst entries) \<and>
           flushToolCallsIfAny pa acc =
             [\<lparr>candidates = [\<lparr>c_role = Some ''model'',
                              c_parts = Some (map (\<lambda>e. toolCallPart pa (snd e)) entries)\<rparr>]\<rparr>]))
   \<and> (dataPayload rawLine = Some ''[DONE]'' \<longrightarrow>
        processLine pc pa acc rawLine = (flushToolCallsIfAny pa acc, acc, True))
   \<and> (dataPayload rawLine = Some d \<and> d \<noteq> ''[DONE]'' \<and> pc d = Some chunk \<and> finishSignal chunk \<longrightarrow>
        processLine pc pa acc rawLine =
          ((if truthy (contentDelta chunk)
            then [createGeminiStreamTextChunk (the (contentDelta chunk))] else [])
           @ flushToolCallsIfAny pa (foldl mergeToolCallDelta acc (toolCallDeltas chunk)),
           foldl mergeToolCallDelta acc (toolCallDeltas chunk), False))
   \<and> gen pc pa reads =
        (case processLines pc pa [] (butlast (split_lines (concat reads))) of
           (out, acc', returned) \<Rightarrow>
             if returned then out else out @ flushToolCallsIfAny pa acc')"
proof (intro conjI impI)
  show "flushToolCallsIfAny pa [] = []" by (rule flush_empty)
next
  assume ne: "acc \<noteq> []"
  let ?entries = "sort_key fst acc"
  have "mset ?entries = mset acc" by simp
  moreover have "sorted (map fst ?entries)" by (rule sorted_sort_key)
  moreover have "flushToolCallsIfAny pa acc =
             [\<lparr>candidates = [\<lparr>c_role = Some ''model'',
                              c_parts = Some (map (\<lambda>e. toolCallPart pa (snd e)) ?entries)\<rparr>]\<rparr>]"
    by (simp add: flush_nonempty [OF ne] createGeminiStreamToolCallsChunk_def comp_def)
  ultimately show "\<exists>entries. mset entries = mset acc \<and> sorted (map fst entries) \<and>
           flushToolCallsIfAny pa acc =
             [\<lparr>candidates = [\<lparr>c_role = Some ''model'',
                              c_parts = Some (map (\<lambda>e. toolCallPart pa (snd e)) entries)\<rparr>]\<rparr>]"
    by blast
next
  assume "dataPayload rawLine = Some ''[DONE]''"
  then show "processLine pc pa acc rawLine = (flushToolCallsIfAny pa acc, acc, True)"
    by (rule processLine_done)
next
  assume "dataPayload rawLine = Some d \<and> d \<noteq> ''[DONE]'' \<and> pc d = Some chunk \<and> finishSignal chunk"
  then show "processLine pc pa acc rawLine =
          ((if truthy (contentDelta chunk)
            then [createGeminiStreamTextChunk (the (contentDelta chunk))] else [])
           @ flushToolCallsIfAny pa (foldl mergeToolCallDelta acc (toolCallDeltas chunk)),
           foldl mergeToolCallDelta acc (toolCallDeltas chunk), False)"
    by (simp add: processLine_chunk processChunk_eq)
next
  show "gen pc pa reads =
        (case processLines pc pa [] (butlast (split_lines (concat reads))) of
           (out, acc', returned) \<Rightarrow>
             if returned then out else out @ flushToolCallsIfAny pa acc')"
    by (simp add: gen_lines runLines_def)
qed

text \<open>
  The theorem at two tool calls that arrive at index 1 and then at index 0: the single
  chunk of the flush carries the call of index 0 first.
\<close>

theorem flush_sorted_single_chunk_witness:
  "accumulate [delta_idx1, delta_idx0] \<noteq> []
   \<and> map fst (accumulate [delta_idx1, delta_idx0]) = [1, 0]
   \<and> (\<exists>entries. mset entries = mset (accumulate [delta_idx1, delta_idx0]) \<and>
         sorted (map fst entries) \<and>
         flushToolCallsIfAny ex_pa (accumulate [delta_idx1, delta_idx0]) =
           [\<lparr>candidates = [\<lparr>c_role = Some ''model'',
                            c_parts = Some (map (\<lambda>e. toolCallPart ex_pa (snd e)) entries)\<rparr>]\<rparr>])
   \<and> flushToolCallsIfAny ex_pa (accumulate [delta_idx1, delta_idx0]) =
        [createGeminiStreamToolCallsChunk ex_pa
           [\<lparr>tc_id = ''call_x'', tc_name = ''first'', tc_arguments = []\<rparr>,
            \<lparr>tc_id = ''call_y'', tc_name = ''second'', tc_arguments = []\<rparr>]]
   \<and> dataPayload ''data: [DONE]'' = Some ''[DONE]''
   \<and> processLine ex_pc ex_pa (accumulate [delta_idx1, delta_idx0]) ''data: [DONE]'' =
        (flushToolCallsIfAny ex_pa (accumulate [delta_idx1, delta_idx0]),
         accumulate [delta_idx1, delta_idx0], True)
   \<and> dataPayload line_finish = Some ''{\"finish\":1}'' \<and> ''{\"finish\":1}'' \<noteq> ''[DONE]''
   \<and> ex_pc ''{\"finish\":1}'' = Some chunk_finish \<and> finishSignal chunk_finish
   \<and> processLine ex_pc ex_pa (accumulate [delta_first]) line_finish =
        (flushToolCallsIfAny ex_pa (accumulate [delta_first, delta_rest]),
         accumulate [delta_first, delta_rest], False)"
proof -
  let ?acc = "accumulate [delta_idx1, delta_idx0]"
  have h1: "?acc \<noteq> []" by code_simp
  have k: "map fst ?acc = [1, 0]" by code_simp
  have h2: "dataPayload ''data: [DONE]'' = Some ''[DONE]''" by code_simp
  have h3: "dataPayload line_finish = Some ''{\"finish\":1}'' \<and> ''{\"finish\":1}'' \<noteq> ''[DONE]''
     \<and> ex_pc ''{\"finish\":1}'' = Some chunk_finish \<and> finishSignal chunk_finish"
    by code_simp
  have e1: "flushToolCallsIfAny ex_pa ?acc =
        [createGeminiStreamToolCallsChunk ex_pa
           [\<lparr>tc_id = ''call_x'', tc_name = ''first'', tc_arguments = []\<rparr>,
            \<lparr>tc_id = ''call_y'', tc_name = ''second'', tc_arguments = []\<rparr>]]"
    by code_simp
  have e2: "contentDelta chunk_finish = None" "toolCallDeltas chunk_finish = [delta_rest]"
    by code_simp+
  have e3: "mergeToolCallDelta (accumulate [delta_first]) delta_rest =
            accumulate [delta_first, delta_rest]"
    by (simp add: accumulate_def)
  note t1 = flush_sorted_single_chunk
              [of ex_pa ?acc "''data: [DONE]''" ex_pc "''{\"finish\":1}''" chunk_finish "[]"]
  note t2 = flush_sorted_single_chunk
              [of ex_pa "accumulate [delta_first]" line_finish ex_pc "''{\"finish\":1}''"
                 chunk_finish "[]"]
  show ?thesis
    using t1 t2 h1 k h2 h3 e1
    by (simp add: e2 e3 truthy_def)
qed


section \<open>Malformed frames\<close>

text \<open>
  Claim C3. A line whose payload is not empty, is not the terminal sentinel and does not
  parse yields nothing, leaves the accumulator as it was and does not end the generator:
  the lines after it are processed as if it were absent, and two streams whose complete
  lines differ only by such a line yield the same chunks.
\<close>

theorem malformed_frame_skipped:
  assumes "dataPayload rawLine = Some d" and "d \<noteq> ''[DONE]''" and "pc d = None"
  shows "processLine pc pa acc rawLine = ([], acc, False)
    \<and> processLines pc pa acc (pre @ rawLine # rest) = processLines pc pa acc (pre @ rest)
    \<and> (butlast (split_lines (concat reads)) = pre @ rawLine # rest
        \<and> butlast (split_lines (concat reads')) = pre @ rest
        \<longrightarrow> gen pc pa reads = gen pc pa reads')"
proof -
  have skip: "\<And>a. processLine pc pa a rawLine = ([], a, False)"
    using assms by (rule processLine_malformed)
  have mid: "\<And>a. processLines pc pa a (pre @ rawLine # rest) = processLines pc pa a (pre @ rest)"
    using skip by (rule processLines_skip_middle)
  have "gen pc pa reads = gen pc pa reads'"
    if "butlast (split_lines (concat reads)) = pre @ rawLine # rest"
      and "butlast (split_lines (concat reads')) = pre @ rest"
    using that mid [of "[]"] by (simp add: gen_lines runLines_def)
  then show ?thesis
    using skip [of acc] mid [of acc] by blast
qed

text \<open>
  The theorem at a truncated frame between two valid ones: both valid frames still give
  their text chunk, as in the stream without the truncated frame.
\<close>

theorem malformed_frame_skipped_witness:
  "dataPayload line_malformed = Some ''{\"choices\":[{\"del''
   \<and> ''{\"choices\":[{\"del'' \<noteq> ''[DONE]''
   \<and> ex_pc ''{\"choices\":[{\"del'' = None
   \<and> processLine ex_pc ex_pa [] line_malformed = ([], [], False)
   \<and> processLines ex_pc ex_pa [] ([line_hi] @ line_malformed # [line_hi]) =
       processLines ex_pc ex_pa [] ([line_hi] @ [line_hi])
   \<and> butlast (split_lines (concat
        [line_hi @ ''\<newline>'' @ take 7 line_malformed, drop 7 line_malformed @ ''\<newline>'',
         line_hi @ ''\<newline>''])) = [line_hi] @ line_malformed # [line_hi]
   \<and> butlast (split_lines (concat [line_hi @ ''\<newline>'', line_hi @ ''\<newline>'']))
       = [line_hi] @ [line_hi]
   \<and> gen ex_pc ex_pa
        [line_hi @ ''\<newline>'' @ take 7 line_malformed, drop 7 line_malformed @ ''\<newline>'',
         line_hi @ ''\<newline>'']
       = gen ex_pc ex_pa [line_hi @ ''\<newline>'', line_hi @ ''\<newline>'']
   \<and> gen ex_pc ex_pa [line_hi @ ''\<newline>'', line_hi @ ''\<newline>'']
       = [createGeminiStreamTextChunk ''hi'', createGeminiStreamTextChunk ''hi'']"
proof -
  have h1: "dataPayload line_malformed = Some ''{\"choices\":[{\"del''" by code_simp
  have h2: "''{\"choices\":[{\"del'' \<noteq> ''[DONE]''" by simp
  have h3: "ex_pc ''{\"choices\":[{\"del'' = None" by code_simp
  have l1: "butlast (split_lines (concat
        [line_hi @ ''\<newline>'' @ take 7 line_malformed, drop 7 line_malformed @ ''\<newline>'',
         line_hi @ ''\<newline>''])) = [line_hi] @ line_malformed # [line_hi]"
    by code_simp
  have l2: "butlast (split_lines (concat [line_hi @ ''\<newline>'', line_hi @ ''\<newline>'']))
       = [line_hi] @ [line_hi]"
    by code_simp
  have g: "gen ex_pc ex_pa [line_hi @ ''\<newline>'', line_hi @ ''\<newline>'']
       = [createGeminiStreamTextChunk ''hi'', createGeminiStreamTextChunk ''hi'']"
    by code_simp
  note t = malformed_frame_skipped
             [where rawLine = line_malformed and d = "''{\"choices\":[{\"del''" and pc = ex_pc
                and pa = ex_pa and acc = "[]" and pre = "[line_hi]" and rest = "[line_hi]"
                and reads = "[line_hi @ ''\<newline>'' @ take 7 line_malformed,
                              drop 7 line_malformed @ ''\<newline>'', line_hi @ ''\<newline>'']"
                and reads' = "[line_hi @ ''\<newline>'', line_hi @ ''\<newline>'']", OF h1 h2 h3]
  show ?thesis
    using t h1 h2 h3 l1 l2 g by blast
qed

section \<open>Text chunks\<close>

lemma isTextChunk_text: "isTextChunk (createGeminiStreamTextChunk t)"
  by (simp add: isTextChunk_def chunkParts_def createGeminiStreamTextChunk_def)

lemma isTextChunk_toolCalls: "\<not> isTextChunk (createGeminiStreamToolCallsChunk pa calls)"
  by (simp add: isTextChunk_def chunkParts_def createGeminiStreamToolCallsChunk_def
        toolCallPart_def list_ex_iff Let_def)

lemma filter_text_flush: "filter isTextChunk (flushToolCallsIfAny pa acc) = []"
  by (simp add: flushToolCallsIfAny_def Let_def isTextChunk_toolCalls)

lemma text_chunks_of_line:
  "filter isTextChunk (fst (processLine pc pa acc rawLine)) =
     (case frameContent pc rawLine of
        None \<Rightarrow> []
      | Some t \<Rightarrow> if t = [] then [] else [createGeminiStreamTextChunk t])"
  by (auto simp: processLine_def frameContent_def processChunk_eq filter_text_flush
        isTextChunk_text truthy_def split: option.splits)

lemma noEmptyText_text: "t \<noteq> [] \<Longrightarrow> noEmptyText (createGeminiStreamTextChunk t)"
  by (simp add: noEmptyText_def chunkParts_def createGeminiStreamTextChunk_def)

lemma noEmptyText_toolCalls: "noEmptyText (createGeminiStreamToolCallsChunk pa calls)"
  by (simp add: noEmptyText_def chunkParts_def createGeminiStreamToolCallsChunk_def
        toolCallPart_def list_all_iff Let_def)

lemma noEmptyText_flush: "list_all noEmptyText (flushToolCallsIfAny pa acc)"
  by (simp add: flushToolCallsIfAny_def Let_def noEmptyText_toolCalls)

lemma noEmptyText_processChunk: "list_all noEmptyText (fst (processChunk pa acc chunk))"
  by (auto simp: processChunk_eq noEmptyText_flush noEmptyText_text truthy_def
           split: option.splits)

lemma noEmptyText_processLine: "list_all noEmptyText (fst (processLine pc pa acc rawLine))"
  using noEmptyText_processChunk
  by (auto simp: processLine_def noEmptyText_flush split: option.splits prod.splits)
     (metis fst_conv)

lemma noEmptyText_processLines: "list_all noEmptyText (fst (processLines pc pa acc ls))"
proof (induction ls arbitrary: acc)
  case Nil
  then show ?case by simp
next
  case (Cons l ls)
  obtain out acc' r where a: "processLine pc pa acc l = (out, acc', r)"
    by (cases "processLine pc pa acc l") auto
  have o: "list_all noEmptyText out"
    using noEmptyText_processLine [of pc pa acc l] a by simp
  obtain out' acc'' r' where b: "processLines pc pa acc' ls = (out', acc'', r')"
    by (cases "processLines pc pa acc' ls") auto
  have o': "list_all noEmptyText out'"
    using Cons.IH [of acc'] b by simp
  show ?case
    using a b o o' by (cases r) simp_all
qed

lemma noEmptyText_gen: "list_all noEmptyText (gen pc pa reads)"
proof -
  obtain out acc' r where a:
    "processLines pc pa [] (butlast (split_lines (concat reads))) = (out, acc', r)"
    by (cases "processLines pc pa [] (butlast (split_lines (concat reads)))") auto
  have "list_all noEmptyText out"
    using noEmptyText_processLines [of pc pa "[]" "butlast (split_lines (concat reads))"] a
    by simp
  then show ?thesis
    using a by (simp add: gen_lines runLines_def noEmptyText_flush)
qed

text \<open>
  Claim C10. The text chunks a line yields are: the one chunk holding the content delta
  when the line carries a parsed frame whose content delta is a non-empty string, and
  none otherwise, in particular none for the empty string; so no chunk the generator
  yields holds an empty text.
\<close>

theorem empty_content_delta_no_text_chunk:
  "filter isTextChunk (fst (processLine pc pa acc rawLine)) =
     (case frameContent pc rawLine of
        None \<Rightarrow> []
      | Some t \<Rightarrow> if t = [] then [] else [createGeminiStreamTextChunk t])
   \<and> list_all noEmptyText (gen pc pa reads)"
  by (simp add: text_chunks_of_line noEmptyText_gen)

theorem empty_content_delta_no_text_chunk_witness:
  "frameContent ex_pc line_empty_content = Some []
   \<and> filter isTextChunk (fst (processLine ex_pc ex_pa [] line_empty_content)) = []
   \<and> frameContent ex_pc line_hi = Some ''hi''
   \<and> filter isTextChunk (fst (processLine ex_pc ex_pa [] line_hi))
       = [createGeminiStreamTextChunk ''hi'']
   \<and> gen ex_pc ex_pa [line_empty_content @ ''\<newline>'' @ line_hi @ ''\<newline>'']
       = [createGeminiStreamTextChunk ''hi'']
   \<and> list_all noEmptyText
       (gen ex_pc ex_pa [line_empty_content @ ''\<newline>'' @ line_hi @ ''\<newline>''])"
proof -
  have f1: "frameContent ex_pc line_empty_content = Some []" by code_simp
  have f2: "frameContent ex_pc line_hi = Some ''hi''" by code_simp
  have g: "gen ex_pc ex_pa [line_empty_content @ ''\<newline>'' @ line_hi @ ''\<newline>'']
       = [createGeminiStreamTextChunk ''hi'']"
    by code_simp
  show ?thesis
    using empty_content_delta_no_text_chunk [of ex_pc ex_pa "[]" line_empty_content
            "[line_empty_content @ ''\<newline>'' @ line_hi @ ''\<newline>'']"]
      empty_content_delta_no_text_chunk [of ex_pc ex_pa "[]" line_hi "[]"]
      f1 f2 g
    by simp
qed


section \<open>System instruction\<close>

lemma contentPartsToText_textParts:
  "contentPartsToText sp (Some (map textPart ts)) = concat ts"
  by (induction ts) (auto simp: contentPartsToText_def partToText_def textPart_def comp_def)

lemma normalize_string:
  "normalizeSystemInstruction sp (SIString t) = (if t = [] then None else Some t)"
  by (simp add: normalizeSystemInstruction_def)

lemma normalize_content:
  "normalizeSystemInstruction sp (SIContent \<lparr>c_role = r, c_parts = Some (map textPart ts)\<rparr>)
     = Some (concat ts)"
  by (simp add: normalizeSystemInstruction_def contentPartsToText_textParts)

lemma normalize_part: "normalizeSystemInstruction sp (SIPart (textPart t)) = Some t"
  by (simp add: normalizeSystemInstruction_def partToText_def textPart_def)

lemma normalize_parts:
  "normalizeSystemInstruction sp (SIParts (map textPart ts)) = Some (concat ts)"
  by (simp add: normalizeSystemInstruction_def contentPartsToText_textParts)

lemma messages_depend_on_truthy_text:
  "(if truthy (normalizeSystemInstruction sp si)
    then Some (the (normalizeSystemInstruction sp si)) else None)
   = (if truthy (normalizeSystemInstruction sp si')
      then Some (the (normalizeSystemInstruction sp si')) else None)
   \<Longrightarrow> geminiRequestToDeepSeekMessages sp js rnd (withSystemInstruction request tools si)
     = geminiRequestToDeepSeekMessages sp js rnd (withSystemInstruction request tools si')"
  by (auto simp: geminiRequestToDeepSeekMessages_def withSystemInstruction_def Let_def
           split: if_splits)

text \<open>
  Claim C5, as amended. Let \<open>t\<close> be a text and \<open>ts\<close> fragments that concatenate to it. When
  \<open>t\<close> is not empty, the string \<open>t\<close>, an object whose \<open>parts\<close> are the text parts of \<open>ts\<close>, the
  single text part of \<open>t\<close> and the array of the text parts of \<open>ts\<close> all normalize to \<open>t\<close>.
  When \<open>t\<close> is empty the string normalizes to absent and the three other shapes to the
  empty text. In both cases the four shapes give the same foreign message list and tools.
\<close>

theorem normalizeSystemInstruction_shapes:
  "concat ts = t \<longrightarrow>
     (t \<noteq> [] \<longrightarrow>
        normalizeSystemInstruction sp (SIString t) = Some t
      \<and> normalizeSystemInstruction sp
          (SIContent \<lparr>c_role = r, c_parts = Some (map textPart ts)\<rparr>) = Some t
      \<and> normalizeSystemInstruction sp (SIPart (textPart t)) = Some t
      \<and> normalizeSystemInstruction sp (SIParts (map textPart ts)) = Some t)
   \<and> (t = [] \<longrightarrow>
        normalizeSystemInstruction sp (SIString t) = None
      \<and> normalizeSystemInstruction sp
          (SIContent \<lparr>c_role = r, c_parts = Some (map textPart ts)\<rparr>) = Some []
      \<and> normalizeSystemInstruction sp (SIPart (textPart t)) = Some []
      \<and> normalizeSystemInstruction sp (SIParts (map textPart ts)) = Some [])
   \<and> geminiRequestToDeepSeekMessages sp js rnd
        (withSystemInstruction request tools
           (SIContent \<lparr>c_role = r, c_parts = Some (map textPart ts)\<rparr>))
      = geminiRequestToDeepSeekMessages sp js rnd (withSystemInstruction request tools (SIString t))
   \<and> geminiRequestToDeepSeekMessages sp js rnd
        (withSystemInstruction request tools (SIPart (textPart t)))
      = geminiRequestToDeepSeekMessages sp js rnd (withSystemInstruction request tools (SIString t))
   \<and> geminiRequestToDeepSeekMessages sp js rnd
        (withSystemInstruction request tools (SIParts (map textPart ts)))
      = geminiRequestToDeepSeekMessages sp js rnd (withSystemInstruction request tools (SIString t))"
proof (intro impI)
  assume c: "concat ts = t"
  have m1: "geminiRequestToDeepSeekMessages sp js rnd
        (withSystemInstruction request tools
           (SIContent \<lparr>c_role = r, c_parts = Some (map textPart ts)\<rparr>))
      = geminiRequestToDeepSeekMessages sp js rnd (withSystemInstruction request tools (SIString t))"
    by (rule messages_depend_on_truthy_text)
       (simp add: normalize_content normalize_string c truthy_def)
  have m2: "geminiRequestToDeepSeekMessages sp js rnd
        (withSystemInstruction request tools (SIPart (textPart t)))
      = geminiRequestToDeepSeekMessages sp js rnd (withSystemInstruction request tools (SIString t))"
    by (rule messages_depend_on_truthy_text)
       (simp add: normalize_part normalize_string truthy_def)
  have m3: "geminiRequestToDeepSeekMessages sp js rnd
        (withSystemInstruction request tools (SIParts (map textPart ts)))
      = geminiRequestToDeepSeekMessages sp js rnd (withSystemInstruction request tools (SIString t))"
    by (rule messages_depend_on_truthy_text)
       (simp add: normalize_parts normalize_string c truthy_def)
  show "(t \<noteq> [] \<longrightarrow>
        normalizeSystemInstruction sp (SIString t) = Some t
      \<and> normalizeSystemInstruction sp
          (SIContent \<lparr>c_role = r, c_parts = Some (map textPart ts)\<rparr>) = Some t
      \<and> normalizeSystemInstruction sp (SIPart (textPart t)) = Some t
      \<and> normalizeSystemInstruction sp (SIParts (map textPart ts)) = Some t)
   \<and> (t = [] \<longrightarrow>
        normalizeSystemInstruction sp (SIString t) = None
      \<and> normalizeSystemInstruction sp
          (SIContent \<lparr>c_role = r, c_parts = Some (map textPart ts)\<rparr>) = Some []
      \<and> normalizeSystemInstruction sp (SIPart (textPart t)) = Some []
      \<and> normalizeSystemInstruction sp (SIParts (map textPart ts)) = Some [])
   \<and> geminiRequestToDeepSeekMessages sp js rnd
        (withSystemInstruction request tools
           (SIContent \<lparr>c_role = r, c_parts = Some (map textPart ts)\<rparr>))
      = geminiRequestToDeepSeekMessages sp js rnd (withSystemInstruction request tools (SIString t))
   \<and> geminiRequestToDeepSeekMessages sp js rnd
        (withSystemInstruction request tools (SIPart (textPart t)))
      = geminiRequestToDeepSeekMessages sp js rnd (withSystemInstruction request tools (SIString t))
   \<and> geminiRequestToDeepSeekMessages sp js rnd
        (withSystemInstruction request tools (SIParts (map textPart ts)))
      = geminiRequestToDeepSeekMessages sp js rnd (withSystemInstruction request tools (SIString t))"
    using m1 m2 m3 c
    by (simp add: normalize_content normalize_string normalize_part normalize_parts)
qed

text \<open>
  The theorem at the text \<open>be brief\<close>, cut into two parts, and at the empty text with no
  parts.
\<close>

theorem normalizeSystemInstruction_shapes_witness:
  "concat [''be '', ''brief''] = ''be brief'' \<and> ''be brief'' \<noteq> []
   \<and> normalizeSystemInstruction ex_sp (SIString ''be brief'') = Some ''be brief''
   \<and> normalizeSystemInstruction ex_sp
        (SIContent \<lparr>c_role = Some ''user'', c_parts = Some (map textPart [''be '', ''brief''])\<rparr>)
       = Some ''be brief''
   \<and> normalizeSystemInstruction ex_sp (SIPart (textPart ''be brief'')) = Some ''be brief''
   \<and> normalizeSystemInstruction ex_sp (SIParts (map textPart [''be '', ''brief'']))
       = Some ''be brief''
   \<and> geminiRequestToDeepSeekMessages ex_sp ex_js ex_rnd
        (withSystemInstruction ex_request None (SIParts (map textPart [''be '', ''brief''])))
       = geminiRequestToDeepSeekMessages ex_sp ex_js ex_rnd
           (withSystemInstruction ex_request None (SIString ''be brief''))
   \<and> geminiRequestToDeepSeekMessages ex_sp ex_js ex_rnd
        (withSystemInstruction ex_request None (SIString ''be brief''))
       = ([System ''be brief'', User ''hello''], None)
   \<and> concat [] = ([] :: string)
   \<and> normalizeSystemInstruction ex_sp (SIString []) = None
   \<and> normalizeSystemInstruction ex_sp (SIParts (map textPart [])) = Some []
   \<and> geminiRequestToDeepSeekMessages ex_sp ex_js ex_rnd
        (withSystemInstruction ex_request None (SIParts (map textPart [])))
       = geminiRequestToDeepSeekMessages ex_sp ex_js ex_rnd
           (withSystemInstruction ex_request None (SIString []))"
proof -
  have e: "geminiRequestToDeepSeekMessages ex_sp ex_js ex_rnd
        (withSystemInstruction ex_request None (SIString ''be brief''))
       = ([System ''be brief'', User ''hello''], None)"
    by code_simp
  show ?thesis
    using normalizeSystemInstruction_shapes
            [of "[''be '', ''brief'']" "''be brief''" ex_sp "Some ''user''" ex_js ex_rnd
               ex_request None]
      normalizeSystemInstruction_shapes
            [of "[]" "[]" ex_sp "Some ''user''" ex_js ex_rnd ex_request None]
      e
    by simp
qed

text \<open>
  Claim C5 as stated fails at the empty text: the plain string normalizes to absent, the
  single text part to the empty text.
\<close>

theorem normalizeSystemInstruction_empty_text_differs:
  "normalizeSystemInstruction ex_sp (SIString []) = None
   \<and> normalizeSystemInstruction ex_sp (SIPart (textPart [])) = Some []"
  by code_simp


section \<open>Function-response turns\<close>

lemma toolMessage_eq:
  "toolMessage js rnd k fr =
     (ToolMsg (expectedToolContent js fr) (expectedToolCallId (rnd k) fr),
      if fr_id fr = None then Suc k else k)"
  by (auto simp: toolMessage_def expectedToolContent_def expectedToolCallId_def Let_def
           split: option.splits json.splits)

lemma toolMessages_Cons:
  "toolMessages js rnd k (fr # frs) =
     (fst (toolMessage js rnd k fr) # fst (toolMessages js rnd (snd (toolMessage js rnd k fr)) frs),
      snd (toolMessages js rnd (snd (toolMessage js rnd k fr)) frs))"
  by (simp split: prod.splits)

lemma toolMessages_length: "length (fst (toolMessages js rnd k frs)) = length frs"
  by (induction frs arbitrary: k) (simp_all add: toolMessages_Cons del: toolMessages.simps(2))

lemma toolMessages_nth:
  "i < length frs \<Longrightarrow>
   fst (toolMessages js rnd k frs) ! i =
     ToolMsg (expectedToolContent js (frs ! i))
       (expectedToolCallId (rnd (k + drawsBefore frs i)) (frs ! i))"
proof (induction frs arbitrary: k i)
  case Nil
  then show ?case by simp
next
  case (Cons fr frs)
  show ?case
  proof (cases i)
    case 0
    then show ?thesis
      by (simp add: toolMessages_Cons toolMessage_eq drawsBefore_def del: toolMessages.simps(2))
  next
    case (Suc j)
    then have j: "j < length frs" using Cons.prems by simp
    show ?thesis
      using Cons.IH [OF j] Suc
      by (simp add: toolMessages_Cons toolMessage_eq drawsBefore_def del: toolMessages.simps(2))
  qed
qed

lemma toolMessages_all_tool:
  "m \<in> set (fst (toolMessages js rnd k frs)) \<Longrightarrow> \<exists>content tid. m = ToolMsg content tid"
  by (induction frs arbitrary: k)
     (auto simp: toolMessages_Cons toolMessage_eq simp del: toolMessages.simps(2))

lemma map_filter_all:
  "\<forall>p\<in>set ps. f p \<noteq> None \<Longrightarrow> List.map_filter f ps = map (\<lambda>p. the (f p)) ps"
  by (induction ps) (auto simp: List.map_filter_simps)

lemma map_filter_filter:
  "List.map_filter f (filter (\<lambda>p. f p \<noteq> None) ps) = List.map_filter f ps"
  by (induction ps) (auto simp: List.map_filter_simps)

lemma map_filter_length:
  "length (List.map_filter f ps) = length (filter (\<lambda>p. f p \<noteq> None) ps)"
  by (induction ps) (auto simp: List.map_filter_simps)

lemma functionResponsesOf_filter:
  "functionResponsesOf (Some (filter (\<lambda>p. functionResponse p \<noteq> None) ps)) =
   functionResponsesOf (Some ps)"
  unfolding functionResponsesOf_def by (simp only: option.case map_filter_filter)

text \<open>
  Claim C7. A user turn whose parts are all function responses becomes one tool message
  per response, in order. The \<open>i\<close>-th message has as \<open>tool_call_id\<close> the response's
  identifier when it has one, and otherwise its name (or \<open>tool\<close>), an underscore and the
  text of a random draw of its own; its content is the payload's string \<open>output\<close> member
  when there is one and the serialized payload otherwise.
\<close>

theorem function_response_turn_to_tool_messages:
  assumes "c_role c = Some ''user''" and "c_parts c = Some ps" and "ps \<noteq> []"
    and "\<forall>p\<in>set ps. functionResponse p \<noteq> None"
  shows "length (fst (translateContent sp js rnd k c)) = length ps
    \<and> (\<forall>i<length ps.
          fst (translateContent sp js rnd k c) ! i =
            ToolMsg (expectedToolContent js (the (functionResponse (ps ! i))))
              (expectedToolCallId
                 (rnd (k + drawsBefore (map (\<lambda>p. the (functionResponse p)) ps) i))
                 (the (functionResponse (ps ! i)))))"
proof -
  let ?frs = "map (\<lambda>p. the (functionResponse p)) ps"
  have frs: "functionResponsesOf (c_parts c) = ?frs"
    using assms(2,4) by (simp add: functionResponsesOf_def map_filter_all)
  have tc: "translateContent sp js rnd k c = toolMessages js rnd k ?frs"
    using assms(1,3) frs by (simp add: translateContent_def Let_def)
  show ?thesis
    unfolding tc using toolMessages_nth [of _ ?frs js rnd k]
    by (simp add: toolMessages_length)
qed

text \<open>
  The theorem at a turn of two responses: the first has the id \<open>call_1\<close> and the payload
  \<open>{output: "42"}\<close>, the second has no id, the name \<open>search\<close> and no \<open>output\<close> member.
\<close>

theorem function_response_turn_to_tool_messages_witness:
  "c_role \<lparr>c_role = Some ''user'', c_parts = Some [frPart fr_with_id, frPart fr_without_id]\<rparr>
     = Some ''user''
   \<and> c_parts \<lparr>c_role = Some ''user'', c_parts = Some [frPart fr_with_id, frPart fr_without_id]\<rparr>
     = Some [frPart fr_with_id, frPart fr_without_id]
   \<and> [frPart fr_with_id, frPart fr_without_id] \<noteq> []
   \<and> functionResponse (frPart fr_with_id) \<noteq> None
   \<and> functionResponse (frPart fr_without_id) \<noteq> None
   \<and> length (fst (translateContent ex_sp ex_js ex_rnd 0
        \<lparr>c_role = Some ''user'', c_parts = Some [frPart fr_with_id, frPart fr_without_id]\<rparr>)) = 2
   \<and> fst (translateContent ex_sp ex_js ex_rnd 0
        \<lparr>c_role = Some ''user'', c_parts = Some [frPart fr_with_id, frPart fr_without_id]\<rparr>) ! 0
       = ToolMsg ''42'' ''call_1''
   \<and> fst (translateContent ex_sp ex_js ex_rnd 0
        \<lparr>c_role = Some ''user'', c_parts = Some [frPart fr_with_id, frPart fr_without_id]\<rparr>) ! 1
       = ToolMsg ''{\"n\":1}'' ''search_8f3a1c''"
proof -
  let ?ps = "[frPart fr_with_id, frPart fr_without_id]"
  let ?c = "\<lparr>c_role = Some ''user'', c_parts = Some ?ps\<rparr>"
  have h1: "c_role ?c = Some ''user''" by simp
  have h2: "c_parts ?c = Some ?ps" by simp
  have h3: "?ps \<noteq> []" by simp
  have h4: "\<forall>p\<in>set ?ps. functionResponse p \<noteq> None" by (simp add: frPart_def)
  have e0: "ToolMsg (expectedToolContent ex_js (the (functionResponse (?ps ! 0))))
              (expectedToolCallId
                 (ex_rnd (0 + drawsBefore (map (\<lambda>p. the (functionResponse p)) ?ps) 0))
                 (the (functionResponse (?ps ! 0)))) = ToolMsg ''42'' ''call_1''"
    by code_simp
  have e1: "ToolMsg (expectedToolContent ex_js (the (functionResponse (?ps ! 1))))
              (expectedToolCallId
                 (ex_rnd (0 + drawsBefore (map (\<lambda>p. the (functionResponse p)) ?ps) 1))
                 (the (functionResponse (?ps ! 1)))) = ToolMsg ''{\"n\":1}'' ''search_8f3a1c''"
    by code_simp
  note t = function_response_turn_to_tool_messages [OF h1 h2 h3 h4, of ex_sp ex_js ex_rnd 0]
  have l: "length (fst (translateContent ex_sp ex_js ex_rnd 0 ?c)) = 2"
    using t by simp
  have n0: "fst (translateContent ex_sp ex_js ex_rnd 0 ?c) ! 0 = ToolMsg ''42'' ''call_1''"
    using t e0 by (metis length_Cons zero_less_Suc)
  have n1: "fst (translateContent ex_sp ex_js ex_rnd 0 ?c) ! 1
              = ToolMsg ''{\"n\":1}'' ''search_8f3a1c''"
    using t e1 by (metis One_nat_def length_Cons lessI list.size(3))
  show ?thesis
    using h1 h2 h3 h4 l n0 n1 by simp
qed

text \<open>
  Claim C9. A user turn with at least one function-response part is translated as if its
  other parts were not there: it yields one tool message per function-response part and
  nothing else, in particular no user message.
\<close>

theorem function_response_turn_discards_other_parts:
  assumes "c_role c = Some ''user''" and "c_parts c = Some ps"
    and "\<exists>p\<in>set ps. functionResponse p \<noteq> None"
  shows "translateContent sp js rnd k c =
           translateContent sp js rnd k
             (c\<lparr>c_parts := Some (filter (\<lambda>p. functionResponse p \<noteq> None) ps)\<rparr>)
    \<and> length (fst (translateContent sp js rnd k c)) =
         length (filter (\<lambda>p. functionResponse p \<noteq> None) ps)
    \<and> (\<forall>m\<in>set (fst (translateContent sp js rnd k c)). \<exists>content tid. m = ToolMsg content tid)
    \<and> (\<forall>t. User t \<notin> set (fst (translateContent sp js rnd k c)))"
proof -
  let ?frs = "List.map_filter functionResponse ps"
  have ne: "?frs \<noteq> []"
    using assms(3) map_filter_length [of functionResponse ps]
    by (metis (mono_tags, lifting) filter_empty_conv length_0_conv)
  have tc: "translateContent sp js rnd k c = toolMessages js rnd k ?frs"
    using assms(1,2) ne by (simp add: translateContent_def Let_def functionResponsesOf_def)
  have tc': "translateContent sp js rnd k
               (c\<lparr>c_parts := Some (filter (\<lambda>p. functionResponse p \<noteq> None) ps)\<rparr>)
             = toolMessages js rnd k ?frs"
    using assms(1) ne functionResponsesOf_filter [of ps]
    by (simp add: translateContent_def Let_def functionResponsesOf_def)
  have len: "length (fst (toolMessages js rnd k ?frs)) =
             length (filter (\<lambda>p. functionResponse p \<noteq> None) ps)"
    by (simp add: toolMessages_length map_filter_length)
  have tool: "\<forall>m\<in>set (fst (toolMessages js rnd k ?frs)). \<exists>content tid. m = ToolMsg content tid"
    using toolMessages_all_tool by blast
  then have nouser: "\<forall>t. User t \<notin> set (fst (toolMessages js rnd k ?frs))"
    by blast
  show ?thesis
    unfolding tc tc' using len tool nouser by blast
qed

text \<open>
  The theorem at a turn that holds a text part, a function response and another text part:
  only the tool message of the response comes out.
\<close>

theorem function_response_turn_discards_other_parts_witness:
  "c_role \<lparr>c_role = Some ''user'',
           c_parts = Some [textPart ''see '', frPart fr_with_id, textPart ''above'']\<rparr>
     = Some ''user''
   \<and> c_parts \<lparr>c_role = Some ''user'',
             c_parts = Some [textPart ''see '', frPart fr_with_id, textPart ''above'']\<rparr>
     = Some [textPart ''see '', frPart fr_with_id, textPart ''above'']
   \<and> frPart fr_with_id \<in> set [textPart ''see '', frPart fr_with_id, textPart ''above'']
   \<and> functionResponse (frPart fr_with_id) \<noteq> None
   \<and> translateContent ex_sp ex_js ex_rnd 0
        \<lparr>c_role = Some ''user'',
         c_parts = Some [textPart ''see '', frPart fr_with_id, textPart ''above'']\<rparr>
       = translateContent ex_sp ex_js ex_rnd 0
           (\<lparr>c_role = Some ''user'',
             c_parts = Some [textPart ''see '', frPart fr_with_id, textPart ''above'']\<rparr>
            \<lparr>c_parts := Some (filter (\<lambda>p. functionResponse p \<noteq> None)
                 [textPart ''see '', frPart fr_with_id, textPart ''above''])\<rparr>)
   \<and> User ''see above'' \<notin> set (fst (translateContent ex_sp ex_js ex_rnd 0
        \<lparr>c_role = Some ''user'',
         c_parts = Some [textPart ''see '', frPart fr_with_id, textPart ''above'']\<rparr>))
   \<and> translateContent ex_sp ex_js ex_rnd 0
        \<lparr>c_role = Some ''user'',
         c_parts = Some [textPart ''see '', frPart fr_with_id, textPart ''above'']\<rparr>
       = ([ToolMsg ''42'' ''call_1''], 0)"
proof -
  let ?ps = "[textPart ''see '', frPart fr_with_id, textPart ''above'']"
  let ?c = "\<lparr>c_role = Some ''user'', c_parts = Some ?ps\<rparr>"
  have h1: "c_role ?c = Some ''user''" by simp
  have h2: "c_parts ?c = Some ?ps" by simp
  have h3: "\<exists>p\<in>set ?ps. functionResponse p \<noteq> None" by (simp add: frPart_def)
  have e: "translateContent ex_sp ex_js ex_rnd 0 ?c = ([ToolMsg ''42'' ''call_1''], 0)"
    by code_simp
  note t = function_response_turn_discards_other_parts [OF h1 h2 h3, of ex_sp ex_js ex_rnd 0]
  have m: "frPart fr_with_id \<in> set ?ps" by simp
  have f: "functionResponse (frPart fr_with_id) \<noteq> None" by (simp add: frPart_def)
  have u: "User ''see above'' \<notin> set (fst (translateContent ex_sp ex_js ex_rnd 0 ?c))"
    using t by blast
  have q: "translateContent ex_sp ex_js ex_rnd 0 ?c =
           translateContent ex_sp ex_js ex_rnd 0
             (?c\<lparr>c_parts := Some (filter (\<lambda>p. functionResponse p \<noteq> None) ?ps)\<rparr>)"
    using t by blast
  show ?thesis
    using h1 h2 m f q u e by blast
qed


section \<open>Model turns\<close>

lemma translateContent_model:
  "c_role c = Some ''model'' \<Longrightarrow>
   translateContent sp js rnd k c =
     (if contentPartsToText sp (c_parts c) = [] then []
      else [Assistant (contentPartsToText sp (c_parts c))], k)"
  by (simp add: translateContent_def Let_def)

lemma translateContents_Cons:
  "translateContents sp js rnd k (c # cs) =
     (fst (translateContent sp js rnd k c)
        @ fst (translateContents sp js rnd (snd (translateContent sp js rnd k c)) cs),
      snd (translateContents sp js rnd (snd (translateContent sp js rnd k c)) cs))"
  by (simp split: prod.splits)

lemma contentPartsToText_textOnly:
  "textOnly ps \<Longrightarrow> contentPartsToText sp ps = joinedText ps"
proof (cases ps)
  case None
  then show ?thesis by (simp add: contentPartsToText_def joinedText_def)
next
  case (Some l)
  assume "textOnly ps"
  then have "list_all (\<lambda>p. part_text p \<noteq> None) l"
    using Some by (simp add: textOnly_def)
  then have "concat (map (partToText sp) l) =
             concat (map (\<lambda>p. case part_text p of Some t \<Rightarrow> t | None \<Rightarrow> []) l)"
    by (induction l) (auto simp: partToText_def)
  then show ?thesis
    using Some by (simp add: contentPartsToText_def joinedText_def)
qed

lemma translateContent_model_textOnly:
  "c_role c = Some ''model'' \<Longrightarrow> textOnly (c_parts c) \<Longrightarrow>
   translateContent sp js rnd k c =
     (if joinedText (c_parts c) = [] then [] else [Assistant (joinedText (c_parts c))], k)"
  by (simp add: translateContent_model contentPartsToText_textOnly)

lemma translateContents_model_textOnly:
  "\<forall>c\<in>set cs. c_role c = Some ''model'' \<and> textOnly (c_parts c) \<Longrightarrow>
   fst (translateContents sp js rnd k cs) =
     map Assistant (filter (\<lambda>t. t \<noteq> []) (map (\<lambda>c. joinedText (c_parts c)) cs))"
  by (induction cs arbitrary: k)
     (auto simp: translateContents_Cons translateContent_model_textOnly
           simp del: translateContents.simps(2))

text \<open>
  Claim C8, as amended. A model turn whose parts all carry a text becomes exactly one
  assistant message when the concatenation of those texts is not empty, and that message
  holds the concatenation and nothing else, whatever function calls the parts carry beside
  their text; when the concatenation is empty, as for a turn without parts, the turn
  becomes no message at all. So a history of such turns becomes, in order, one assistant
  message per turn with a non-empty text.
\<close>

theorem model_turn_to_assistant_message:
  "(c_role c = Some ''model'' \<and> textOnly (c_parts c) \<longrightarrow>
      fst (translateContent sp js rnd k c) =
        (if joinedText (c_parts c) = [] then [] else [Assistant (joinedText (c_parts c))]))
   \<and> ((\<forall>c\<in>set cs. c_role c = Some ''model'' \<and> textOnly (c_parts c)) \<longrightarrow>
      fst (translateContents sp js rnd k cs) =
        map Assistant (filter (\<lambda>t. t \<noteq> []) (map (\<lambda>c. joinedText (c_parts c)) cs)))"
proof (intro conjI impI)
  assume "c_role c = Some ''model'' \<and> textOnly (c_parts c)"
  then show "fst (translateContent sp js rnd k c) =
        (if joinedText (c_parts c) = [] then [] else [Assistant (joinedText (c_parts c))])"
    by (simp add: translateContent_model_textOnly)
next
  assume "\<forall>c\<in>set cs. c_role c = Some ''model'' \<and> textOnly (c_parts c)"
  then show "fst (translateContents sp js rnd k cs) =
        map Assistant (filter (\<lambda>t. t \<noteq> []) (map (\<lambda>c. joinedText (c_parts c)) cs))"
    by (rule translateContents_model_textOnly)
qed

text \<open>
  The theorem at a model turn of a text part and a part that carries both a text and a
  function call, and at a history of that turn followed by a model turn without parts.
\<close>

theorem model_turn_to_assistant_message_witness:
  "c_role \<lparr>c_role = Some ''model'', c_parts = Some [textPart ''Hello '', textAndCallPart]\<rparr>
     = Some ''model''
   \<and> textOnly (c_parts
        \<lparr>c_role = Some ''model'', c_parts = Some [textPart ''Hello '', textAndCallPart]\<rparr>)
   \<and> joinedText (c_parts
        \<lparr>c_role = Some ''model'', c_parts = Some [textPart ''Hello '', textAndCallPart]\<rparr>)
       = ''Hello there''
   \<and> fst (translateContent ex_sp ex_js ex_rnd 0
        \<lparr>c_role = Some ''model'', c_parts = Some [textPart ''Hello '', textAndCallPart]\<rparr>)
       = [Assistant ''Hello there'']
   \<and> c_role \<lparr>c_role = Some ''model'', c_parts = None\<rparr> = Some ''model''
   \<and> textOnly (c_parts \<lparr>c_role = Some ''model'', c_parts = None\<rparr>)
   \<and> fst (translateContents ex_sp ex_js ex_rnd 0
        [\<lparr>c_role = Some ''model'', c_parts = Some [textPart ''Hello '', textAndCallPart]\<rparr>,
         \<lparr>c_role = Some ''model'', c_parts = None\<rparr>])
       = [Assistant ''Hello there'']"
proof -
  let ?c = "\<lparr>c_role = Some ''model'', c_parts = Some [textPart ''Hello '', textAndCallPart]\<rparr>"
  let ?d = "\<lparr>c_role = Some ''model'', c_parts = None\<rparr>"
  let ?cs = "[?c, ?d]"
  have h1: "c_role ?c = Some ''model''" by simp
  have h2: "textOnly (c_parts ?c)" by code_simp
  have h3: "c_role ?d = Some ''model''" by simp
  have h4: "textOnly (c_parts ?d)" by code_simp
  have h5: "\<forall>c\<in>set ?cs. c_role c = Some ''model'' \<and> textOnly (c_parts c)"
    using h1 h2 h3 h4 by simp
  have e1: "joinedText (c_parts ?c) = ''Hello there''" by code_simp
  have e2: "map Assistant (filter (\<lambda>t. t \<noteq> []) (map (\<lambda>c. joinedText (c_parts c)) ?cs))
              = [Assistant ''Hello there'']"
    by code_simp
  note t = model_turn_to_assistant_message [of ?c ex_sp ex_js ex_rnd 0 ?cs]
  have a: "fst (translateContent ex_sp ex_js ex_rnd 0 ?c) = [Assistant ''Hello there'']"
    using t h1 h2 e1 by simp
  have b: "fst (translateContents ex_sp ex_js ex_rnd 0 ?cs) = [Assistant ''Hello there'']"
    using t h5 e2 by presburger
  show ?thesis
    using h1 h2 h3 h4 e1 a b by simp
qed

text \<open>
  Claim C8 as stated fails at a model turn with no parts: it becomes no assistant message,
  not exactly one.
\<close>

theorem model_turn_without_text_gives_no_message:
  "translateContent ex_sp ex_js ex_rnd 0 \<lparr>c_role = Some ''model'', c_parts = Some []\<rparr> = ([], 0)"
  by code_simp

section \<open>Temperature in the outbound request\<close>

lemma generateContent_request_temperature:
  "generateContent_request Number sp js rnd e request userPromptId = Inr r \<Longrightarrow>
   body_temperature (out_body r) = resolveOpenAICompatTemperature Number e"
  by (auto simp: generateContent_request_def Let_def split: if_splits sum.splits prod.splits)

lemma generateContentStream_request_temperature:
  "generateContentStream_request Number sp js rnd e request userPromptId = Inr r \<Longrightarrow>
   body_temperature (out_body r) = None"
  by (auto simp: generateContentStream_request_def Let_def
           split: if_splits sum.splits prod.splits)

text \<open>
  Claim C6 does not hold of the streaming entry point. With the provider
  \<open>openai_compatible\<close> and the temperature override \<open>1\<close>, the body that
  \<^verbatim>\<open>generateContent\<close> sends carries the temperature and the body that
  \<^verbatim>\<open>generateContentStream\<close> sends for the same request does not.
\<close>

theorem stream_request_has_no_temperature:
  "resolveOpenAICompatTemperature ex_Number ex_env = Some 1
   \<and> generateContent_request ex_Number ex_sp ex_js ex_rnd ex_env ex_request ''p1'' =
       Inr \<lparr>out_endpoint = ''https://api.openai.com/v1/chat/completions'',
            out_authorization = ''Bearer sk-1'',
            out_body = \<lparr>body_model = ''gpt-4o-mini'', body_messages = [User ''hello''],
                        body_tools = None, body_tool_choice = None,
                        body_temperature = Some 1, body_stream = None,
                        body_user = ''p1''\<rparr>\<rparr>
   \<and> generateContentStream_request ex_Number ex_sp ex_js ex_rnd ex_env ex_request ''p1'' =
       Inr \<lparr>out_endpoint = ''https://api.openai.com/v1/chat/completions'',
            out_authorization = ''Bearer sk-1'',
            out_body = \<lparr>body_model = ''gpt-4o-mini'', body_messages = [User ''hello''],
                        body_tools = None, body_tool_choice = None,
                        body_temperature = None, body_stream = Some True,
                        body_user = ''p1''\<rparr>\<rparr>"
  by code_simp


end
